theory Spec2Isabelle
  imports Complex_Main
begin

section \<open>JavaScript values\<close>

text \<open>
  A TypeScript \<open>number\<close> is modelled as a real: the finite doubles, read exactly. NaN and
  the infinities are outside the model (every comparison against NaN is false, so a NaN
  metric falls to the last tier of each table and fires no catalyst rule).

  A string is a byte string in UTF-8. The source's literals hold a few characters beyond
  ASCII; each is spelled out by its bytes below.
\<close>

type_synonym number = real

definition em_dash :: string where
  "em_dash = [CHR 0xE2, CHR 0x80, CHR 0x94]"

definition emoji_fire :: string where
  "emoji_fire = [CHR 0xF0, CHR 0x9F, CHR 0x94, CHR 0xA5]"

definition emoji_check :: string where
  "emoji_check = [CHR 0xE2, CHR 0x9C, CHR 0x85]"

definition emoji_eyes :: string where
  "emoji_eyes = [CHR 0xF0, CHR 0x9F, CHR 0x91, CHR 0x80]"

definition emoji_next_track :: string where
  "emoji_next_track = [CHR 0xE2, CHR 0x8F, CHR 0xAD, CHR 0xEF, CHR 0xB8, CHR 0x8F]"

definition emoji_prohibited :: string where
  "emoji_prohibited = [CHR 0xF0, CHR 0x9F, CHR 0x9A, CHR 0xAB]"

definition emoji_no_entry :: string where
  "emoji_no_entry = [CHR 0xE2, CHR 0x9B, CHR 0x94]"

definition emoji_warning :: string where
  "emoji_warning = [CHR 0xE2, CHR 0x9A, CHR 0xA0, CHR 0xEF, CHR 0xB8, CHR 0x8F]"

definition emoji_high_voltage :: string where
  "emoji_high_voltage = [CHR 0xE2, CHR 0x9A, CHR 0xA1]"

text \<open>
  Template literals render an integer-valued number in decimal digits
  (\<open>`${createCount}`\<close>, \<open>`${days}`\<close>).
\<close>

definition digit_char :: "nat \<Rightarrow> char" where
  "digit_char d = ''0123456789'' ! d"

fun show_nat :: "nat \<Rightarrow> string" where
  "show_nat n = (if n < 10 then [digit_char n] else show_nat (n div 10) @ [digit_char (n mod 10)])"

declare show_nat.simps [simp del]

definition show_int :: "int \<Rightarrow> string" where
  "show_int i = (if i < 0 then CHR ''-'' # show_nat (nat (- i)) else show_nat (nat i))"

text \<open>
  \<open>String.prototype.toLowerCase\<close>, on the ASCII letters, and
  \<open>String.prototype.includes\<close>.
\<close>

definition lower_char :: "char \<Rightarrow> char" where
  "lower_char c =
     (case map_of (zip ''ABCDEFGHIJKLMNOPQRSTUVWXYZ'' ''abcdefghijklmnopqrstuvwxyz'') c of
        None \<Rightarrow> c
      | Some d \<Rightarrow> d)"

definition toLowerCase :: "string \<Rightarrow> string" where
  "toLowerCase s = map lower_char s"

fun starts_with :: "string \<Rightarrow> string \<Rightarrow> bool" where
  "starts_with s [] = True"
| "starts_with [] (c # cs) = False"
| "starts_with (d # ds) (c # cs) = (d = c \<and> starts_with ds cs)"

fun includes_str :: "string \<Rightarrow> string \<Rightarrow> bool" where
  "includes_str [] needle = starts_with [] needle"
| "includes_str (d # ds) needle = (starts_with (d # ds) needle \<or> includes_str ds needle)"

text \<open>The nullish coalescing operator: \<open>x ?? d\<close>.\<close>

fun nullish :: "'a option \<Rightarrow> 'a \<Rightarrow> 'a" where
  "nullish (Some v) d = v"
| "nullish None d = d"

text \<open>
  What the JavaScript engine supplies: the clock (\<open>Date.now()\<close> in milliseconds, and the
  ISO rendering \<open>new Date().toISOString()\<close> of the instant a result is stamped) and the
  built-in number formatters \<open>Number.prototype.toLocaleString\<close> and
  \<open>Number.prototype.toFixed\<close>.
\<close>

record host =
  date_now :: int
  iso_now :: string
  toLocaleString :: "number \<Rightarrow> string"
  toFixed :: "number \<Rightarrow> nat \<Rightarrow> string"

section \<open>Type definitions\<close>

text \<open>
  \<open>DexPair\<close>, with the fields the services read. The source reads the numeric fields
  through optional chains closed by \<open>?? 0\<close> (\<open>pair.liquidity?.usd ?? 0\<close>), so each is
  an option here: \<open>None\<close> stands for a chain that ends in \<open>undefined\<close> or \<open>null\<close> at
  any link. \<open>pairCreatedAt\<close> is optional in the type itself. \<open>info_websites\<close> and
  \<open>info_socials\<close> are \<open>pair.info?.websites\<close> and \<open>pair.info?.socials\<close>, arrays of
  (label or type, url).
\<close>

record DexPair =
  chainId :: string
  url :: string
  pairAddress :: string
  baseToken_address :: string
  baseToken_name :: string
  baseToken_symbol :: string
  txns_h24_buys :: "number option"
  txns_h24_sells :: "number option"
  volume_h24 :: "number option"
  volume_h6 :: "number option"
  priceChange_h24 :: "number option"
  liquidity_usd :: "number option"
  fdv :: "number option"
  marketCap :: "number option"
  pairCreatedAt :: "number option"
  info_websites :: "(string \<times> string) list option"
  info_socials :: "(string \<times> string) list option"

record ScoreBreakdown =
  category :: string
  weight :: int
  score :: int
  maxScore :: int
  display_value :: string
  details :: string

record CatalystAdjustment =
  name :: string
  points :: int
  reason :: string

datatype ScoreAction = HOT | QUALIFIED | WATCH | SKIP

text \<open>
  The \<open>catalysts\<close> of a \<open>TokenScore\<close> is a JavaScript array, held by reference: the
  field is an address into a store of arrays, so that two objects can share one array.
  Fields whose names another record already uses carry the suffix \<open>_ts\<close>.
\<close>

type_synonym ref = nat

record store =
  arrays :: "ref \<Rightarrow> CatalystAdjustment list"
  next_ref :: ref

definition alloc :: "CatalystAdjustment list \<Rightarrow> store \<Rightarrow> ref \<times> store" where
  "alloc xs s = (next_ref s, s\<lparr>arrays := (arrays s)(next_ref s := xs), next_ref := Suc (next_ref s)\<rparr>)"

definition push :: "ref \<Rightarrow> CatalystAdjustment \<Rightarrow> store \<Rightarrow> store" where
  "push r x s = s\<lparr>arrays := (arrays s)(r := arrays s r @ [x])\<rparr>"

record TokenScore =
  contractAddress :: string
  chain_ts :: string
  tokenName :: string
  tokenSymbol :: string
  totalScore :: int
  maxScore_ts :: int
  action :: ScoreAction
  breakdown :: "ScoreBreakdown list"
  catalysts :: ref
  recommendation :: string
  scoredAt :: string
  pairAddress_ts :: string
  pairUrl :: string

section \<open>DexScreener helpers\<close>

definition getTokenAgeDays :: "host \<Rightarrow> DexPair \<Rightarrow> int" where
  "getTokenAgeDays h pair =
     (case pairCreatedAt pair of
        None \<Rightarrow> - 1
      | Some created \<Rightarrow>
          if created = 0 then - 1
          else \<lfloor>(of_int (date_now h) - created) / (1000 * 60 * 60 * 24)\<rfloor>)"

definition countSocials :: "DexPair \<Rightarrow> nat" where
  "countSocials pair =
     (let count0 = 0;
          count1 = (case info_websites pair of
                      Some ws \<Rightarrow> if length ws \<noteq> 0 then count0 + length ws else count0
                    | None \<Rightarrow> count0);
          count2 = (case info_socials pair of
                      Some ss \<Rightarrow> if length ss \<noteq> 0 then count1 + length ss else count1
                    | None \<Rightarrow> count1)
      in count2)"

section \<open>The scoring engine\<close>

record weights =
  w_liquidity :: int
  w_marketCap :: int
  w_volume24h :: int
  w_social :: int
  w_age :: int
  w_team :: int

definition WEIGHTS :: weights where
  "WEIGHTS = \<lparr>w_liquidity = 25, w_marketCap = 20, w_volume24h = 20, w_social = 15,
              w_age = 10, w_team = 10\<rparr>"

definition scoreLiquidity :: "host \<Rightarrow> DexPair \<Rightarrow> ScoreBreakdown" where
  "scoreLiquidity h pair =
     (let usd = nullish (liquidity_usd pair) 0;
          (score', details') =
            (if usd \<ge> 500000 then (25, ''Excellent liquidity'')
             else if usd \<ge> 200000 then (20, ''Good liquidity'')
             else if usd \<ge> 100000 then (15, ''Acceptable liquidity'')
             else if usd \<ge> 50000 then (10, ''Low liquidity '' @ em_dash @ '' higher risk'')
             else (5, ''Very low liquidity '' @ em_dash @ '' caution''))
      in \<lparr>category = ''Liquidity'', weight = w_liquidity WEIGHTS, score = score',
          maxScore = 25, display_value = ''$'' @ toLocaleString h usd, details = details'\<rparr>)"

definition scoreMarketCap :: "host \<Rightarrow> DexPair \<Rightarrow> ScoreBreakdown" where
  "scoreMarketCap h pair =
     (let mcap = nullish (marketCap pair) (nullish (fdv pair) 0);
          (score', details') =
            (if mcap \<ge> 10000000 then (20, ''Strong market cap'')
             else if mcap \<ge> 1000000 then (16, ''Good market cap'')
             else if mcap \<ge> 500000 then (12, ''Acceptable market cap'')
             else if mcap \<ge> 100000 then (8, ''Small cap '' @ em_dash @ '' early stage'')
             else (4, ''Micro cap '' @ em_dash @ '' high risk''))
      in \<lparr>category = ''Market Cap'', weight = w_marketCap WEIGHTS, score = score',
          maxScore = 20, display_value = ''$'' @ toLocaleString h mcap, details = details'\<rparr>)"

definition scoreVolume :: "host \<Rightarrow> DexPair \<Rightarrow> ScoreBreakdown" where
  "scoreVolume h pair =
     (let vol = nullish (volume_h24 pair) 0;
          (score', details') =
            (if vol \<ge> 1000000 then (20, ''Excellent volume'')
             else if vol \<ge> 500000 then (16, ''Good volume'')
             else if vol \<ge> 100000 then (12, ''Moderate volume'')
             else if vol \<ge> 50000 then (8, ''Low volume'')
             else (4, ''Very low volume''))
      in \<lparr>category = ''Volume 24h'', weight = w_volume24h WEIGHTS, score = score',
          maxScore = 20, display_value = ''$'' @ toLocaleString h vol, details = details'\<rparr>)"

definition scoreSocial :: "DexPair \<Rightarrow> ScoreBreakdown" where
  "scoreSocial pair =
     (let platforms = countSocials pair;
          (score', details') =
            (if platforms \<ge> 4 then
               (15, show_nat platforms @ '' platforms '' @ em_dash @ '' strong presence'')
             else if platforms \<ge> 2 then
               (10, show_nat platforms @ '' platforms '' @ em_dash @ '' moderate presence'')
             else if platforms \<ge> 1 then
               (6, show_nat platforms @ '' platform '' @ em_dash @ '' minimal presence'')
             else (2, ''No social links found''))
      in \<lparr>category = ''Social'', weight = w_social WEIGHTS, score = score',
          maxScore = 15, display_value = show_nat platforms @ '' platforms'',
          details = details'\<rparr>)"

definition scoreAge :: "host \<Rightarrow> DexPair \<Rightarrow> ScoreBreakdown" where
  "scoreAge h pair =
     (let days = getTokenAgeDays h pair;
          (score', details') =
            (if days > 180 then (10, show_int days @ '' days '' @ em_dash @ '' established'')
             else if days > 30 then (8, show_int days @ '' days '' @ em_dash @ '' moderate history'')
             else if days > 7 then (5, show_int days @ '' days '' @ em_dash @ '' new'')
             else if days \<ge> 0 then
               (3, show_int days @ '' days '' @ em_dash @ '' very new, higher risk'')
             else (2, ''Age unknown''))
      in \<lparr>category = ''Age'', weight = w_age WEIGHTS, score = score',
          maxScore = 10,
          display_value = (if days \<ge> 0 then show_int days @ '' days'' else ''Unknown''),
          details = details'\<rparr>)"

definition scoreTeam :: "DexPair \<Rightarrow> ScoreBreakdown" where
  "scoreTeam pair =
     (let websites = nullish (map_option length (info_websites pair)) 0;
          socials = nullish (map_option length (info_socials pair)) 0;
          (score', details') =
            (if websites \<ge> 1 \<and> socials \<ge> 2 then
               (10, ''Website + multiple socials '' @ em_dash @ '' good transparency'')
             else if websites \<ge> 1 \<or> socials \<ge> 2 then (7, ''Some online presence'')
             else if socials \<ge> 1 then (4, ''Minimal online presence'')
             else (2, ''No verifiable team info''))
      in \<lparr>category = ''Team Transparency'', weight = w_team WEIGHTS, score = score',
          maxScore = 10,
          display_value = show_nat websites @ '' sites, '' @ show_nat socials @ '' socials'',
          details = details'\<rparr>)"

subsection \<open>Catalyst detection\<close>

text \<open>
  A ratio rule of the source reads \<open>a > 0 && b > 0 && a / b > c\<close>. \<open>&&\<close> evaluates its
  right operand only when the left one holds, so the division runs only behind both
  guards. \<open>ratio_above\<close> gives the value of the condition together with the divisors of
  the divisions that were evaluated on the way.
\<close>

definition ratio_above :: "number \<Rightarrow> number \<Rightarrow> number \<Rightarrow> bool \<times> number list" where
  "ratio_above a b c =
     (if a > 0 then (if b > 0 then (a / b > c, [b]) else (False, [])) else (False, []))"

definition detectCatalysts :: "host \<Rightarrow> DexPair \<Rightarrow> CatalystAdjustment list" where
  "detectCatalysts h pair =
     (let vol24h = nullish (volume_h24 pair) 0;
          vol6h = nullish (volume_h6 pair) 0;
          priceChange = nullish (priceChange_h24 pair) 0;
          buys24h = nullish (txns_h24_buys pair) 0;
          sells24h = nullish (txns_h24_sells pair) 0;
          socials = countSocials pair;
          c1 = (if fst (ratio_above vol6h vol24h 0.5) then
                  [\<lparr>name = ''Volume Momentum'', points = 5,
                    reason = ''6h volume >50% of 24h '' @ em_dash @ '' active momentum''\<rparr>]
                else []);
          c2 = (if fst (ratio_above buys24h sells24h 2) then
                  [\<lparr>name = ''Buy Pressure'', points = 3,
                    reason = ''Buy/sell ratio '' @ toFixed h (buys24h / sells24h) 1 @ ''x''\<rparr>]
                else []);
          c3 = (if socials \<ge> 4 then
                  [\<lparr>name = ''Multi-Platform Presence'', points = 5,
                    reason = show_nat socials @ '' social platforms active''\<rparr>]
                else []);
          c4 = (if priceChange < - 30 then
                  [\<lparr>name = ''Price Dump'', points = - 10,
                    reason = toFixed h priceChange 1 @ ''% drop in 24h''\<rparr>]
                else []);
          c5 = (if fst (ratio_above sells24h buys24h 3) then
                  [\<lparr>name = ''Sell Pressure'', points = - 5,
                    reason = ''Sell/buy ratio '' @ toFixed h (sells24h / buys24h) 1 @ ''x ''
                             @ em_dash @ '' dump risk''\<rparr>]
                else [])
      in c1 @ c2 @ c3 @ c4 @ c5)"

text \<open>
  The divisors of every division \<open>detectCatalysts\<close> evaluates, in the order of
  evaluation: those of the three conditions, and those of the two rationales that
  render a ratio (evaluated only when their rule fires).
\<close>

definition detectCatalysts_divisors :: "DexPair \<Rightarrow> number list" where
  "detectCatalysts_divisors pair =
     (let vol24h = nullish (volume_h24 pair) 0;
          vol6h = nullish (volume_h6 pair) 0;
          buys24h = nullish (txns_h24_buys pair) 0;
          sells24h = nullish (txns_h24_sells pair) 0
      in snd (ratio_above vol6h vol24h 0.5)
         @ snd (ratio_above buys24h sells24h 2)
         @ (if fst (ratio_above buys24h sells24h 2) then [sells24h] else [])
         @ snd (ratio_above sells24h buys24h 3)
         @ (if fst (ratio_above sells24h buys24h 3) then [buys24h] else []))"

subsection \<open>Score action mapping\<close>

definition getAction :: "int \<Rightarrow> ScoreAction" where
  "getAction sc =
     (if sc \<ge> 85 then HOT else if sc \<ge> 70 then QUALIFIED else if sc \<ge> 50 then WATCH else SKIP)"

fun getRecommendation :: "ScoreAction \<Rightarrow> string" where
  "getRecommendation HOT =
     emoji_fire @ '' HOT '' @ em_dash @ '' Immediate outreach + wallet forensics recommended''"
| "getRecommendation QUALIFIED =
     emoji_check @ '' QUALIFIED '' @ em_dash @ '' Priority queue, run wallet forensics''"
| "getRecommendation WATCH = emoji_eyes @ '' WATCH '' @ em_dash @ '' Monitor for 48 hours''"
| "getRecommendation SKIP =
     emoji_next_track @ '' SKIP '' @ em_dash @ '' Below threshold, log only''"

subsection \<open>Main scoring function\<close>

text \<open>
  \<open>scoreToken\<close> builds a fresh catalysts array (allocated in the store) and a fresh
  \<open>TokenScore\<close> that refers to it. \<open>reduce\<close> is a left fold.
\<close>

definition scoreToken :: "host \<Rightarrow> DexPair \<Rightarrow> store \<Rightarrow> TokenScore \<times> store" where
  "scoreToken h pair s =
     (let breakdown' = [scoreLiquidity h pair, scoreMarketCap h pair, scoreVolume h pair,
                        scoreSocial pair, scoreAge h pair, scoreTeam pair];
          baseScore = foldl (\<lambda>sum b. sum + score b) 0 breakdown';
          (catalysts', s') = alloc (detectCatalysts h pair) s;
          catalystTotal = foldl (\<lambda>sum c. sum + points c) 0 (arrays s' catalysts');
          totalScore' = max 0 (min 100 (baseScore + catalystTotal));
          action' = getAction totalScore'
      in (\<lparr>contractAddress = baseToken_address pair,
           chain_ts = chainId pair,
           tokenName = baseToken_name pair,
           tokenSymbol = baseToken_symbol pair,
           totalScore = totalScore',
           maxScore_ts = 100,
           action = action',
           breakdown = breakdown',
           catalysts = catalysts',
           recommendation = getRecommendation action',
           scoredAt = iso_now h,
           pairAddress_ts = pairAddress pair,
           pairUrl = url pair\<rparr>, s'))"

section \<open>Wallet forensics\<close>

datatype WalletFlag =
  WALLET_VERIFIED | INSTITUTIONAL | NET_POSITIVE | SERIAL_CREATOR | DUMP_ALERT | MIXER_REJECT
  | UNKNOWN

fun flag_name :: "WalletFlag \<Rightarrow> string" where
  "flag_name WALLET_VERIFIED = ''WALLET_VERIFIED''"
| "flag_name INSTITUTIONAL = ''INSTITUTIONAL''"
| "flag_name NET_POSITIVE = ''NET_POSITIVE''"
| "flag_name SERIAL_CREATOR = ''SERIAL_CREATOR''"
| "flag_name DUMP_ALERT = ''DUMP_ALERT''"
| "flag_name MIXER_REJECT = ''MIXER_REJECT''"
| "flag_name UNKNOWN = ''UNKNOWN''"

record WalletFlagDetail =
  flag :: WalletFlag
  impact :: int
  reason_wf :: string

datatype RiskLevel = LOW | MEDIUM | HIGH | CRITICAL

record WalletForensicsResult =
  deployerAddress :: string
  chain_wf :: string
  fundedBy :: string
  nativeBalance :: number
  tokenCount :: nat
  recentTransactions :: nat
  flags :: "WalletFlagDetail list"
  scoreAdjustment :: int
  riskLevel :: RiskLevel
  analyzedAt :: string
  summary :: string

record transaction =
  tx_type :: string
  timestamp :: number
  description :: string

text \<open>
  The two address sets are module constants of the source (shipped empty, to be filled
  in as addresses are discovered); the model takes them as configuration.
\<close>

record address_sets =
  KNOWN_MIXERS :: "string set"
  KNOWN_INSTITUTIONAL :: "string set"

record dump_pattern =
  isDumping :: bool
  dumpPercent :: number

definition analyzeDumpPattern :: "host \<Rightarrow> transaction list \<Rightarrow> dump_pattern" where
  "analyzeDumpPattern h transactions =
     (let now = of_int (date_now h) / 1000;
          sevenDaysAgo = now - 7 * 24 * 60 * 60;
          recentTxns = filter (\<lambda>tx. timestamp tx > sevenDaysAgo) transactions;
          sells = filter (\<lambda>tx. tx_type tx = ''SWAP''
                               \<and> includes_str (toLowerCase (description tx)) ''sold'') recentTxns;
          dumpPercent' = (if length recentTxns > 0
                          then (of_nat (length sells) / of_nat (length recentTxns)) * 100
                          else 0)
      in \<lparr>isDumping = (dumpPercent' > 50 \<and> length sells \<ge> 3), dumpPercent = dumpPercent'\<rparr>)"

definition countTokenCreates :: "transaction list \<Rightarrow> nat" where
  "countTokenCreates transactions =
     length (filter (\<lambda>tx. tx_type tx = ''CREATE''
                          \<or> includes_str (toLowerCase (description tx)) ''created''
                          \<or> includes_str (toLowerCase (description tx)) ''initialize mint'')
               transactions)"

definition generateFlags ::
  "address_sets \<Rightarrow> host \<Rightarrow> string \<Rightarrow> string \<Rightarrow> number \<Rightarrow> nat \<Rightarrow> transaction list
   \<Rightarrow> WalletFlagDetail list" where
  "generateFlags cfg h address fundedBy' nativeBalance' tokenCount' transactions =
     (if fundedBy' \<in> KNOWN_MIXERS cfg then
        [\<lparr>flag = MIXER_REJECT, impact = - 100,
          reason_wf = ''Funded by known mixer: '' @ take 8 fundedBy' @ ''...''\<rparr>]
      else
        let flags1 = (if fundedBy' \<in> KNOWN_INSTITUTIONAL cfg \<or> address \<in> KNOWN_INSTITUTIONAL cfg
                      then [\<lparr>flag = INSTITUTIONAL, impact = 8,
                             reason_wf = ''Linked to known institutional/VC wallet''\<rparr>]
                      else []);
            createCount = countTokenCreates transactions;
            flags2 = flags1 @
                     (if createCount > 5
                      then [\<lparr>flag = SERIAL_CREATOR, impact = - 5,
                             reason_wf = ''Created '' @ show_nat createCount @ '' tokens ''
                                         @ em_dash @ '' serial creator pattern''\<rparr>]
                      else []);
            d = analyzeDumpPattern h transactions;
            flags3 = flags2 @
                     (if isDumping d
                      then [\<lparr>flag = DUMP_ALERT,
                             impact = (if dumpPercent d > 70 then - 15 else - 10),
                             reason_wf = toFixed h (dumpPercent d) 0
                                         @ ''% sell transactions in last 7 days''\<rparr>]
                      else []);
            flags4 = flags3 @
                     (if nativeBalance' > 1 \<and> tokenCount' > 0 \<and> \<not> isDumping d
                      then [\<lparr>flag = NET_POSITIVE, impact = 2,
                             reason_wf = toFixed h nativeBalance' 2 @ '' SOL + ''
                                         @ show_nat tokenCount' @ '' tokens held''\<rparr>]
                      else [])
        in flags4 @
           (if length flags4 = 0 \<or> list_all (\<lambda>f. impact f \<ge> 0) flags4
            then [\<lparr>flag = WALLET_VERIFIED, impact = 3,
                   reason_wf = ''No negative signals detected''\<rparr>]
            else []))"

text \<open>
  \<open>analyzeWallet\<close> awaits three lookups. \<open>getBalances\<close> and \<open>getTransactions\<close> throw on a
  failed response, and the rejection passes through \<open>Promise.all\<close>: no result is built.
  \<open>findFundingSource\<close> never throws (it yields \<open>"UNKNOWN"\<close>). The model takes the
  outcome of each lookup; when both throwing lookups fail it reports the failure of the
  balances (\<open>Promise.all\<close> reports whichever came first).
\<close>

datatype error = HeliusBalancesFailed nat | HeliusTransactionsFailed nat

record balances =
  b_nativeBalance :: number
  b_tokenCount :: nat

fun join_comma :: "string list \<Rightarrow> string" where
  "join_comma [] = []"
| "join_comma [x] = x"
| "join_comma (x # y # ys) = x @ '', '' @ join_comma (y # ys)"

definition analyzeWallet ::
  "address_sets \<Rightarrow> host \<Rightarrow> string \<Rightarrow> error + balances \<Rightarrow> error + transaction list \<Rightarrow> string
   \<Rightarrow> error + WalletForensicsResult" where
  "analyzeWallet cfg h deployerAddress' balances_r transactions_r fundedBy' =
     (case balances_r of
        Inl e \<Rightarrow> Inl e
      | Inr bal \<Rightarrow>
     (case transactions_r of
        Inl e \<Rightarrow> Inl e
      | Inr transactions \<Rightarrow>
          let flags' = generateFlags cfg h deployerAddress' fundedBy'
                         (b_nativeBalance bal) (b_tokenCount bal) transactions;
              scoreAdjustment' = foldl (\<lambda>sum f. sum + impact f) 0 flags';
              riskLevel' =
                (if list_ex (\<lambda>f. flag f = MIXER_REJECT) flags' then CRITICAL
                 else if list_ex (\<lambda>f. flag f = DUMP_ALERT \<and> impact f \<le> - 15) flags' then HIGH
                 else if list_ex (\<lambda>f. impact f < 0) flags' then MEDIUM
                 else LOW);
              flagNames = join_comma (map (\<lambda>f. flag_name (flag f)) flags');
              summary' =
                (if riskLevel' = CRITICAL then
                   emoji_no_entry @ '' CRITICAL: Mixer-funded deployer. AUTO-REJECT.''
                 else if riskLevel' = HIGH then
                   emoji_warning @ '' HIGH RISK: '' @ flagNames @ ''. Manual review required.''
                 else if riskLevel' = MEDIUM then
                   emoji_high_voltage @ '' MEDIUM RISK: '' @ flagNames
                   @ ''. Proceed with caution.''
                 else emoji_check @ '' LOW RISK: '' @ flagNames @ ''. Wallet appears clean.'')
          in Inr \<lparr>deployerAddress = deployerAddress',
                  chain_wf = ''solana'',
                  fundedBy = fundedBy',
                  nativeBalance = b_nativeBalance bal,
                  tokenCount = b_tokenCount bal,
                  recentTransactions = length transactions,
                  flags = flags',
                  scoreAdjustment = scoreAdjustment',
                  riskLevel = riskLevel',
                  analyzedAt = iso_now h,
                  summary = summary'\<rparr>))"

section \<open>Merging a forensics result into a score\<close>

text \<open>
  \<open>{ ...tokenScore }\<close> copies the fields of \<open>tokenScore\<close> into a new object: the scalar
  fields by value, the \<open>catalysts\<close> field by reference. The assignments that follow write
  to the new object; \<open>adjusted.catalysts.push\<close> writes to the array both objects hold.
\<close>

definition auto_rejected :: string where
  "auto_rejected =
     emoji_prohibited @ '' AUTO-REJECTED '' @ em_dash @ '' Deployer funded via mixer/tornado''"

definition applyWalletAdjustment ::
  "TokenScore \<Rightarrow> WalletForensicsResult \<Rightarrow> store \<Rightarrow> TokenScore \<times> store" where
  "applyWalletAdjustment tokenScore walletResult s =
     (let adjusted0 = tokenScore;
          adjustment = scoreAdjustment walletResult;
          s' = foldl (\<lambda>st f. push (catalysts adjusted0)
                                 \<lparr>name = ''Wallet: '' @ flag_name (flag f), points = impact f,
                                  reason = reason_wf f\<rparr> st)
                 s (flags walletResult);
          adjusted1 = adjusted0\<lparr>totalScore := max 0 (min 100 (totalScore tokenScore + adjustment))\<rparr>;
          adjusted2 = adjusted1\<lparr>action := getAction (totalScore adjusted1)\<rparr>;
          adjusted3 = adjusted2\<lparr>recommendation := getRecommendation (action adjusted2)\<rparr>;
          adjusted4 = (if list_ex (\<lambda>f. flag f = MIXER_REJECT) (flags walletResult)
                       then adjusted3\<lparr>totalScore := 0, action := SKIP,
                                      recommendation := auto_rejected\<rparr>
                       else adjusted3)
      in (adjusted4, s'))"

section \<open>Concrete inputs\<close>

text \<open>
  Fixed-point notation for a real below \<open>10^21\<close>, the way ECMAScript specifies
  \<open>toFixed\<close>: the nearest multiple of \<open>10^-f\<close>, the larger one on a tie. The example host
  uses it for both formatters (so its \<open>toLocaleString\<close> groups no digits).
\<close>

definition fixed_notation :: "number \<Rightarrow> nat \<Rightarrow> string" where
  "fixed_notation x f =
     (let s = (if x < 0 then ''-'' else []);
          n = nat \<lfloor>\<bar>x\<bar> * 10 ^ f + 1 / 2\<rfloor>;
          m = show_nat n;
          m' = (if f \<noteq> 0 then
                  (let padded = (if length m \<le> f then replicate (f + 1 - length m) CHR ''0'' @ m
                                 else m);
                       k = length padded
                   in take (k - f) padded @ ''.'' @ drop (k - f) padded)
                else m)
      in s @ m')"

definition example_host :: "int \<Rightarrow> string \<Rightarrow> host" where
  "example_host now stamp =
     \<lparr>date_now = now, iso_now = stamp,
      toLocaleString = (\<lambda>x. fixed_notation x 0), toFixed = fixed_notation\<rparr>"

definition empty_store :: store where
  "empty_store = \<lparr>arrays = (\<lambda>r. []), next_ref = 0\<rparr>"

text \<open>A well-established pair, created 2023-11-14T22:13:20Z.\<close>

definition strong_pair :: DexPair where
  "strong_pair =
     \<lparr>chainId = ''solana'', url = ''https://dexscreener.com/solana/pairA'',
      pairAddress = ''pairA'',
      baseToken_address = ''mintA'', baseToken_name = ''Token A'', baseToken_symbol = ''TKA'',
      txns_h24_buys = Some 100, txns_h24_sells = Some 10,
      volume_h24 = Some 1200000, volume_h6 = Some 300000,
      priceChange_h24 = Some 4.5,
      liquidity_usd = Some 600000, fdv = None, marketCap = Some 12000000,
      pairCreatedAt = Some 1700000000000,
      info_websites = Some [(''Website'', ''https://a.example'')],
      info_socials = Some [(''twitter'', ''https://x.com/a''), (''telegram'', ''https://t.me/a''),
                           (''discord'', ''https://discord.gg/a'')]\<rparr>"

text \<open>A pair with no social links and no sells in the last 24 hours, created at the same instant.\<close>

definition modest_pair :: DexPair where
  "modest_pair =
     \<lparr>chainId = ''solana'', url = ''https://dexscreener.com/solana/pairB'',
      pairAddress = ''pairB'',
      baseToken_address = ''mintB'', baseToken_name = ''Token B'', baseToken_symbol = ''TKB'',
      txns_h24_buys = Some 50, txns_h24_sells = Some 0,
      volume_h24 = Some 40000, volume_h6 = Some 1000,
      priceChange_h24 = Some 0,
      liquidity_usd = Some 600000, fdv = Some 600000, marketCap = None,
      pairCreatedAt = Some 1700000000000,
      info_websites = None,
      info_socials = None\<rparr>"

text \<open>
  The address sets as the source ships them, and a configuration with one mixer and one
  institutional wallet.
\<close>

definition shipped_sets :: address_sets where
  "shipped_sets = \<lparr>KNOWN_MIXERS = {}, KNOWN_INSTITUTIONAL = {}\<rparr>"

definition configured_sets :: address_sets where
  "configured_sets = \<lparr>KNOWN_MIXERS = {''MixerPool1111111111111111111111111''},
                       KNOWN_INSTITUTIONAL = {''VentureFund11111111111111111111111''}\<rparr>"

text \<open>
  A transaction sample with eight token creations (by type, or by description in either
  phrase and in mixed case) and two transfers, all older than seven days at the instants
  used below.
\<close>

definition serial_creator_sample :: "transaction list" where
  "serial_creator_sample =
     [\<lparr>tx_type = ''CREATE'', timestamp = 1690000000, description = ''''\<rparr>,
      \<lparr>tx_type = ''CREATE'', timestamp = 1690000100, description = ''mint''\<rparr>,
      \<lparr>tx_type = ''UNKNOWN'', timestamp = 1690000200, description = ''Wallet Created token FOO''\<rparr>,
      \<lparr>tx_type = ''TRANSFER'', timestamp = 1690000300, description = ''sent 1 SOL''\<rparr>,
      \<lparr>tx_type = ''UNKNOWN'', timestamp = 1690000400, description = ''Initialize Mint BAR''\<rparr>,
      \<lparr>tx_type = ''UNKNOWN'', timestamp = 1690000500, description = ''created pool''\<rparr>,
      \<lparr>tx_type = ''CREATE'', timestamp = 1690000600, description = ''created BAZ''\<rparr>,
      \<lparr>tx_type = ''TOKEN_MINT'', timestamp = 1690000700, description = ''INITIALIZE MINT''\<rparr>,
      \<lparr>tx_type = ''TRANSFER'', timestamp = 1690000800, description = ''received 2 SOL''\<rparr>,
      \<lparr>tx_type = ''CREATE'', timestamp = 1690000900, description = ''token QUX''\<rparr>]"

text \<open>The forensics result of a wallet with no balance and no transactions.\<close>

definition verified_wallet_result :: WalletForensicsResult where
  "verified_wallet_result =
     \<lparr>deployerAddress = ''DeployerWallet1111111111111111111'',
      chain_wf = ''solana'',
      fundedBy = ''UNKNOWN'',
      nativeBalance = 0,
      tokenCount = 0,
      recentTransactions = 0,
      flags = [\<lparr>flag = WALLET_VERIFIED, impact = 3,
                reason_wf = ''No negative signals detected''\<rparr>],
      scoreAdjustment = 3,
      riskLevel = LOW,
      analyzedAt = ''2023-12-14T22:13:20.000Z'',
      summary = emoji_check @ '' LOW RISK: WALLET_VERIFIED. Wallet appears clean.''\<rparr>"

section \<open>Factor scorers\<close>

lemma score_scoreLiquidity:
  "score (scoreLiquidity h pair) =
     (let usd = nullish (liquidity_usd pair) 0
      in if usd \<ge> 500000 then 25 else if usd \<ge> 200000 then 20
         else if usd \<ge> 100000 then 15 else if usd \<ge> 50000 then 10 else 5)"
  by (simp add: scoreLiquidity_def Let_def)

lemma score_scoreMarketCap:
  "score (scoreMarketCap h pair) =
     (let mcap = nullish (marketCap pair) (nullish (fdv pair) 0)
      in if mcap \<ge> 10000000 then 20 else if mcap \<ge> 1000000 then 16
         else if mcap \<ge> 500000 then 12 else if mcap \<ge> 100000 then 8 else 4)"
  by (simp add: scoreMarketCap_def Let_def)

lemma score_scoreVolume:
  "score (scoreVolume h pair) =
     (let vol = nullish (volume_h24 pair) 0
      in if vol \<ge> 1000000 then 20 else if vol \<ge> 500000 then 16
         else if vol \<ge> 100000 then 12 else if vol \<ge> 50000 then 8 else 4)"
  by (simp add: scoreVolume_def Let_def)

lemma score_scoreSocial:
  "score (scoreSocial pair) =
     (let platforms = countSocials pair
      in if platforms \<ge> 4 then 15 else if platforms \<ge> 2 then 10
         else if platforms \<ge> 1 then 6 else 2)"
  by (simp add: scoreSocial_def Let_def)

lemma score_scoreAge:
  "score (scoreAge h pair) =
     (let days = getTokenAgeDays h pair
      in if days > 180 then 10 else if days > 30 then 8
         else if days > 7 then 5 else if days \<ge> 0 then 3 else 2)"
  by (simp add: scoreAge_def Let_def)

lemma score_scoreTeam:
  "score (scoreTeam pair) =
     (let websites = nullish (map_option length (info_websites pair)) 0;
          socials = nullish (map_option length (info_socials pair)) 0
      in if websites \<ge> 1 \<and> socials \<ge> 2 then 10
         else if websites \<ge> 1 \<or> socials \<ge> 2 then 7
         else if socials \<ge> 1 then 4 else 2)"
  by (simp add: scoreTeam_def Let_def)

lemma weight_maxScore:
  "weight (scoreLiquidity h pair) = 25 \<and> maxScore (scoreLiquidity h pair) = 25"
  "weight (scoreMarketCap h pair) = 20 \<and> maxScore (scoreMarketCap h pair) = 20"
  "weight (scoreVolume h pair) = 20 \<and> maxScore (scoreVolume h pair) = 20"
  "weight (scoreSocial pair) = 15 \<and> maxScore (scoreSocial pair) = 15"
  "weight (scoreAge h pair) = 10 \<and> maxScore (scoreAge h pair) = 10"
  "weight (scoreTeam pair) = 10 \<and> maxScore (scoreTeam pair) = 10"
  by (simp_all add: scoreLiquidity_def scoreMarketCap_def scoreVolume_def scoreSocial_def
      scoreAge_def scoreTeam_def WEIGHTS_def Let_def split: prod.splits)

lemma score_bounds:
  "0 \<le> score (scoreLiquidity h pair) \<and> score (scoreLiquidity h pair) \<le> 25"
  "0 \<le> score (scoreMarketCap h pair) \<and> score (scoreMarketCap h pair) \<le> 20"
  "0 \<le> score (scoreVolume h pair) \<and> score (scoreVolume h pair) \<le> 20"
  "0 \<le> score (scoreSocial pair) \<and> score (scoreSocial pair) \<le> 15"
  "0 \<le> score (scoreAge h pair) \<and> score (scoreAge h pair) \<le> 10"
  "0 \<le> score (scoreTeam pair) \<and> score (scoreTeam pair) \<le> 10"
  by (simp_all add: score_scoreLiquidity score_scoreMarketCap score_scoreVolume
      score_scoreSocial score_scoreAge score_scoreTeam Let_def)

lemma age_30_days:
  "getTokenAgeDays (example_host 1702592000000 ''2023-12-14T22:13:20.000Z'') strong_pair = 30"
  by (simp add: getTokenAgeDays_def example_host_def strong_pair_def)

lemma age_7_days:
  "getTokenAgeDays (example_host 1700604800000 ''2023-11-21T22:13:20.000Z'') modest_pair = 7"
  by (simp add: getTokenAgeDays_def example_host_def modest_pair_def)

lemma age_8_days:
  "getTokenAgeDays (example_host 1700691200000 ''2023-11-22T22:13:20.000Z'') modest_pair = 8"
  by (simp add: getTokenAgeDays_def example_host_def modest_pair_def)

text \<open>
  C3. Every factor's awarded score stays within its weight (and \<open>maxScore\<close> is the weight);
  the liquidity factor follows its table \<open>\<ge>500k \<rightarrow> 25, \<ge>200k \<rightarrow> 20, \<ge>100k \<rightarrow> 15, \<ge>50k \<rightarrow> 10,
  else \<rightarrow> 5\<close>, awarding 25 at 500000.00 and 20 at 499999.99; the other five factors
  follow their tables in the same way.
\<close>

theorem factor_score_within_weight:
  "(0 \<le> score (scoreLiquidity h pair)
      \<and> score (scoreLiquidity h pair) \<le> maxScore (scoreLiquidity h pair)
      \<and> maxScore (scoreLiquidity h pair) = weight (scoreLiquidity h pair)
      \<and> weight (scoreLiquidity h pair) = 25)
   \<and> (0 \<le> score (scoreMarketCap h pair)
      \<and> score (scoreMarketCap h pair) \<le> maxScore (scoreMarketCap h pair)
      \<and> maxScore (scoreMarketCap h pair) = weight (scoreMarketCap h pair)
      \<and> weight (scoreMarketCap h pair) = 20)
   \<and> (0 \<le> score (scoreVolume h pair)
      \<and> score (scoreVolume h pair) \<le> maxScore (scoreVolume h pair)
      \<and> maxScore (scoreVolume h pair) = weight (scoreVolume h pair)
      \<and> weight (scoreVolume h pair) = 20)
   \<and> (0 \<le> score (scoreSocial pair)
      \<and> score (scoreSocial pair) \<le> maxScore (scoreSocial pair)
      \<and> maxScore (scoreSocial pair) = weight (scoreSocial pair)
      \<and> weight (scoreSocial pair) = 15)
   \<and> (0 \<le> score (scoreAge h pair)
      \<and> score (scoreAge h pair) \<le> maxScore (scoreAge h pair)
      \<and> maxScore (scoreAge h pair) = weight (scoreAge h pair)
      \<and> weight (scoreAge h pair) = 10)
   \<and> (0 \<le> score (scoreTeam pair)
      \<and> score (scoreTeam pair) \<le> maxScore (scoreTeam pair)
      \<and> maxScore (scoreTeam pair) = weight (scoreTeam pair)
      \<and> weight (scoreTeam pair) = 10)
   \<and> score (scoreLiquidity h (pair\<lparr>liquidity_usd := Some 500000.00\<rparr>)) = 25
   \<and> score (scoreLiquidity h (pair\<lparr>liquidity_usd := Some 499999.99\<rparr>)) = 20
   \<and> score (scoreLiquidity h pair) =
       (let usd = nullish (liquidity_usd pair) 0
        in if usd \<ge> 500000 then 25 else if usd \<ge> 200000 then 20
           else if usd \<ge> 100000 then 15 else if usd \<ge> 50000 then 10 else 5)
   \<and> score (scoreMarketCap h pair) =
       (let mcap = nullish (marketCap pair) (nullish (fdv pair) 0)
        in if mcap \<ge> 10000000 then 20 else if mcap \<ge> 1000000 then 16
           else if mcap \<ge> 500000 then 12 else if mcap \<ge> 100000 then 8 else 4)
   \<and> score (scoreVolume h pair) =
       (let vol = nullish (volume_h24 pair) 0
        in if vol \<ge> 1000000 then 20 else if vol \<ge> 500000 then 16
           else if vol \<ge> 100000 then 12 else if vol \<ge> 50000 then 8 else 4)
   \<and> score (scoreSocial pair) =
       (let platforms = countSocials pair
        in if platforms \<ge> 4 then 15 else if platforms \<ge> 2 then 10
           else if platforms \<ge> 1 then 6 else 2)
   \<and> score (scoreAge h pair) =
       (let days = getTokenAgeDays h pair
        in if days > 180 then 10 else if days > 30 then 8
           else if days > 7 then 5 else if days \<ge> 0 then 3 else 2)
   \<and> score (scoreTeam pair) =
       (let websites = nullish (map_option length (info_websites pair)) 0;
            socials = nullish (map_option length (info_socials pair)) 0
        in if websites \<ge> 1 \<and> socials \<ge> 2 then 10
           else if websites \<ge> 1 \<or> socials \<ge> 2 then 7
           else if socials \<ge> 1 then 4 else 2)"
proof -
  have b1: "score (scoreLiquidity h (pair\<lparr>liquidity_usd := Some 500000.00\<rparr>)) = 25"
    by (simp add: score_scoreLiquidity)
  have b2: "score (scoreLiquidity h (pair\<lparr>liquidity_usd := Some 499999.99\<rparr>)) = 20"
    by (simp add: score_scoreLiquidity)
  have table: "score (scoreLiquidity h pair) =
       (let usd = nullish (liquidity_usd pair) 0
        in if usd \<ge> 500000 then 25 else if usd \<ge> 200000 then 20
           else if usd \<ge> 100000 then 15 else if usd \<ge> 50000 then 10 else 5)"
    by (rule score_scoreLiquidity)
  have liq: "0 \<le> score (scoreLiquidity h pair)
      \<and> score (scoreLiquidity h pair) \<le> maxScore (scoreLiquidity h pair)
      \<and> maxScore (scoreLiquidity h pair) = weight (scoreLiquidity h pair)
      \<and> weight (scoreLiquidity h pair) = 25"
    by (simp add: score_bounds weight_maxScore)
  have mc: "0 \<le> score (scoreMarketCap h pair)
      \<and> score (scoreMarketCap h pair) \<le> maxScore (scoreMarketCap h pair)
      \<and> maxScore (scoreMarketCap h pair) = weight (scoreMarketCap h pair)
      \<and> weight (scoreMarketCap h pair) = 20"
    by (simp add: score_bounds weight_maxScore)
  have vol: "0 \<le> score (scoreVolume h pair)
      \<and> score (scoreVolume h pair) \<le> maxScore (scoreVolume h pair)
      \<and> maxScore (scoreVolume h pair) = weight (scoreVolume h pair)
      \<and> weight (scoreVolume h pair) = 20"
    by (simp add: score_bounds weight_maxScore)
  have soc: "0 \<le> score (scoreSocial pair)
      \<and> score (scoreSocial pair) \<le> maxScore (scoreSocial pair)
      \<and> maxScore (scoreSocial pair) = weight (scoreSocial pair)
      \<and> weight (scoreSocial pair) = 15"
    by (simp add: score_bounds weight_maxScore)
  have age: "0 \<le> score (scoreAge h pair)
      \<and> score (scoreAge h pair) \<le> maxScore (scoreAge h pair)
      \<and> maxScore (scoreAge h pair) = weight (scoreAge h pair)
      \<and> weight (scoreAge h pair) = 10"
    by (simp add: score_bounds weight_maxScore)
  have team: "0 \<le> score (scoreTeam pair)
      \<and> score (scoreTeam pair) \<le> maxScore (scoreTeam pair)
      \<and> maxScore (scoreTeam pair) = weight (scoreTeam pair)
      \<and> weight (scoreTeam pair) = 10"
    by (simp add: score_bounds weight_maxScore)
  show ?thesis
    using liq mc vol soc age team b1 b2 table
      score_scoreMarketCap [of h pair] score_scoreVolume [of h pair] score_scoreSocial [of pair]
      score_scoreAge [of h pair] score_scoreTeam [of pair]
    by blast
qed

theorem factor_score_within_weight_witness:
  "score (scoreLiquidity (example_host 1702592000000 ''2023-12-14T22:13:20.000Z'') strong_pair) = 25
   \<and> score (scoreLiquidity (example_host 1702592000000 ''2023-12-14T22:13:20.000Z'')
        (strong_pair\<lparr>liquidity_usd := Some 499999.99\<rparr>)) = 20
   \<and> weight (scoreLiquidity (example_host 1702592000000 ''2023-12-14T22:13:20.000Z'') strong_pair)
       = 25"
  using factor_score_within_weight
    [of "example_host 1702592000000 ''2023-12-14T22:13:20.000Z''" strong_pair]
  by (simp add: strong_pair_def)

text \<open>
  C7, as the claim states it, fails: a pair aged exactly 30 days does not reach the
  30-day tier.
\<close>

theorem age_tier_30_days_counterexample:
  "getTokenAgeDays (example_host 1702592000000 ''2023-12-14T22:13:20.000Z'') strong_pair = 30
   \<and> score (scoreAge (example_host 1702592000000 ''2023-12-14T22:13:20.000Z'') strong_pair) \<noteq> 8"
  by (simp add: score_scoreAge age_30_days)

text \<open>
  C7, amended. In the liquidity, market cap, volume, social and team tables the lower
  bound of every tier is inclusive (\<open>\<ge>\<close>). In the age table the three upper tiers (180, 30
  and 7 days) are strict (\<open>>\<close>) and only the lowest (\<open>\<ge> 0\<close>) is inclusive: a pair aged exactly
  30 days scores 5 and a pair aged exactly 7 days scores 3.
\<close>

theorem tier_lower_bounds:
  "((score (scoreLiquidity h p) \<ge> 25 \<longleftrightarrow> nullish (liquidity_usd p) 0 \<ge> 500000)
    \<and> (score (scoreLiquidity h p) \<ge> 20 \<longleftrightarrow> nullish (liquidity_usd p) 0 \<ge> 200000)
    \<and> (score (scoreLiquidity h p) \<ge> 15 \<longleftrightarrow> nullish (liquidity_usd p) 0 \<ge> 100000)
    \<and> (score (scoreLiquidity h p) \<ge> 10 \<longleftrightarrow> nullish (liquidity_usd p) 0 \<ge> 50000))
   \<and> ((score (scoreMarketCap h p) \<ge> 20 \<longleftrightarrow> nullish (marketCap p) (nullish (fdv p) 0) \<ge> 10000000)
    \<and> (score (scoreMarketCap h p) \<ge> 16 \<longleftrightarrow> nullish (marketCap p) (nullish (fdv p) 0) \<ge> 1000000)
    \<and> (score (scoreMarketCap h p) \<ge> 12 \<longleftrightarrow> nullish (marketCap p) (nullish (fdv p) 0) \<ge> 500000)
    \<and> (score (scoreMarketCap h p) \<ge> 8 \<longleftrightarrow> nullish (marketCap p) (nullish (fdv p) 0) \<ge> 100000))
   \<and> ((score (scoreVolume h p) \<ge> 20 \<longleftrightarrow> nullish (volume_h24 p) 0 \<ge> 1000000)
    \<and> (score (scoreVolume h p) \<ge> 16 \<longleftrightarrow> nullish (volume_h24 p) 0 \<ge> 500000)
    \<and> (score (scoreVolume h p) \<ge> 12 \<longleftrightarrow> nullish (volume_h24 p) 0 \<ge> 100000)
    \<and> (score (scoreVolume h p) \<ge> 8 \<longleftrightarrow> nullish (volume_h24 p) 0 \<ge> 50000))
   \<and> ((score (scoreSocial p) \<ge> 15 \<longleftrightarrow> countSocials p \<ge> 4)
    \<and> (score (scoreSocial p) \<ge> 10 \<longleftrightarrow> countSocials p \<ge> 2)
    \<and> (score (scoreSocial p) \<ge> 6 \<longleftrightarrow> countSocials p \<ge> 1))
   \<and> ((score (scoreTeam p) \<ge> 10 \<longleftrightarrow>
          nullish (map_option length (info_websites p)) 0 \<ge> 1
          \<and> nullish (map_option length (info_socials p)) 0 \<ge> 2)
    \<and> (score (scoreTeam p) \<ge> 7 \<longleftrightarrow>
          nullish (map_option length (info_websites p)) 0 \<ge> 1
          \<or> nullish (map_option length (info_socials p)) 0 \<ge> 2)
    \<and> (score (scoreTeam p) \<ge> 4 \<longleftrightarrow>
          nullish (map_option length (info_websites p)) 0 \<ge> 1
          \<or> nullish (map_option length (info_socials p)) 0 \<ge> 1))
   \<and> ((score (scoreAge h p) \<ge> 10 \<longleftrightarrow> getTokenAgeDays h p > 180)
    \<and> (score (scoreAge h p) \<ge> 8 \<longleftrightarrow> getTokenAgeDays h p > 30)
    \<and> (score (scoreAge h p) \<ge> 5 \<longleftrightarrow> getTokenAgeDays h p > 7)
    \<and> (score (scoreAge h p) \<ge> 3 \<longleftrightarrow> getTokenAgeDays h p \<ge> 0))
   \<and> (getTokenAgeDays h p = 30 \<longrightarrow> score (scoreAge h p) = 5)
   \<and> (getTokenAgeDays h p = 7 \<longrightarrow> score (scoreAge h p) = 3)"
proof -
  have liq:
    "(score (scoreLiquidity h p) \<ge> 25 \<longleftrightarrow> nullish (liquidity_usd p) 0 \<ge> 500000)
     \<and> (score (scoreLiquidity h p) \<ge> 20 \<longleftrightarrow> nullish (liquidity_usd p) 0 \<ge> 200000)
     \<and> (score (scoreLiquidity h p) \<ge> 15 \<longleftrightarrow> nullish (liquidity_usd p) 0 \<ge> 100000)
     \<and> (score (scoreLiquidity h p) \<ge> 10 \<longleftrightarrow> nullish (liquidity_usd p) 0 \<ge> 50000)"
    by (simp add: score_scoreLiquidity Let_def)
  have mc:
    "(score (scoreMarketCap h p) \<ge> 20 \<longleftrightarrow> nullish (marketCap p) (nullish (fdv p) 0) \<ge> 10000000)
     \<and> (score (scoreMarketCap h p) \<ge> 16 \<longleftrightarrow> nullish (marketCap p) (nullish (fdv p) 0) \<ge> 1000000)
     \<and> (score (scoreMarketCap h p) \<ge> 12 \<longleftrightarrow> nullish (marketCap p) (nullish (fdv p) 0) \<ge> 500000)
     \<and> (score (scoreMarketCap h p) \<ge> 8 \<longleftrightarrow> nullish (marketCap p) (nullish (fdv p) 0) \<ge> 100000)"
    by (simp add: score_scoreMarketCap Let_def)
  have vol:
    "(score (scoreVolume h p) \<ge> 20 \<longleftrightarrow> nullish (volume_h24 p) 0 \<ge> 1000000)
     \<and> (score (scoreVolume h p) \<ge> 16 \<longleftrightarrow> nullish (volume_h24 p) 0 \<ge> 500000)
     \<and> (score (scoreVolume h p) \<ge> 12 \<longleftrightarrow> nullish (volume_h24 p) 0 \<ge> 100000)
     \<and> (score (scoreVolume h p) \<ge> 8 \<longleftrightarrow> nullish (volume_h24 p) 0 \<ge> 50000)"
    by (simp add: score_scoreVolume Let_def)
  have soc:
    "(score (scoreSocial p) \<ge> 15 \<longleftrightarrow> countSocials p \<ge> 4)
     \<and> (score (scoreSocial p) \<ge> 10 \<longleftrightarrow> countSocials p \<ge> 2)
     \<and> (score (scoreSocial p) \<ge> 6 \<longleftrightarrow> countSocials p \<ge> 1)"
    by (simp add: score_scoreSocial Let_def)
  have team:
    "(score (scoreTeam p) \<ge> 10 \<longleftrightarrow>
          nullish (map_option length (info_websites p)) 0 \<ge> 1
          \<and> nullish (map_option length (info_socials p)) 0 \<ge> 2)
     \<and> (score (scoreTeam p) \<ge> 7 \<longleftrightarrow>
          nullish (map_option length (info_websites p)) 0 \<ge> 1
          \<or> nullish (map_option length (info_socials p)) 0 \<ge> 2)
     \<and> (score (scoreTeam p) \<ge> 4 \<longleftrightarrow>
          nullish (map_option length (info_websites p)) 0 \<ge> 1
          \<or> nullish (map_option length (info_socials p)) 0 \<ge> 1)"
    by (auto simp add: score_scoreTeam Let_def)
  have age:
    "(score (scoreAge h p) \<ge> 10 \<longleftrightarrow> getTokenAgeDays h p > 180)
     \<and> (score (scoreAge h p) \<ge> 8 \<longleftrightarrow> getTokenAgeDays h p > 30)
     \<and> (score (scoreAge h p) \<ge> 5 \<longleftrightarrow> getTokenAgeDays h p > 7)
     \<and> (score (scoreAge h p) \<ge> 3 \<longleftrightarrow> getTokenAgeDays h p \<ge> 0)"
    by (simp add: score_scoreAge Let_def)
  have exact:
    "(getTokenAgeDays h p = 30 \<longrightarrow> score (scoreAge h p) = 5)
     \<and> (getTokenAgeDays h p = 7 \<longrightarrow> score (scoreAge h p) = 3)"
    by (simp add: score_scoreAge Let_def)
  show ?thesis
    using liq mc vol soc team age exact by blast
qed

theorem tier_lower_bounds_witness:
  "getTokenAgeDays (example_host 1702592000000 ''2023-12-14T22:13:20.000Z'') strong_pair = 30
   \<and> score (scoreAge (example_host 1702592000000 ''2023-12-14T22:13:20.000Z'') strong_pair) = 5
   \<and> getTokenAgeDays (example_host 1700604800000 ''2023-11-21T22:13:20.000Z'') modest_pair = 7
   \<and> score (scoreAge (example_host 1700604800000 ''2023-11-21T22:13:20.000Z'') modest_pair) = 3"
  using tier_lower_bounds
      [of "example_host 1702592000000 ''2023-12-14T22:13:20.000Z''" strong_pair]
    tier_lower_bounds
      [of "example_host 1700604800000 ''2023-11-21T22:13:20.000Z''" modest_pair]
    age_30_days age_7_days
  by simp

text \<open>
  C8. Each of the five single-metric scorers is monotone in the metric it reads: a
  snapshot with a larger (or equal) liquidity, market cap, 24h volume, social-platform
  count or age in days never gets a smaller score for that factor, whatever the other
  fields hold.
\<close>

theorem factor_score_monotone:
  "(nullish (liquidity_usd p) 0 \<le> nullish (liquidity_usd q) 0
      \<longrightarrow> score (scoreLiquidity h p) \<le> score (scoreLiquidity h' q))
   \<and> (nullish (marketCap p) (nullish (fdv p) 0) \<le> nullish (marketCap q) (nullish (fdv q) 0)
      \<longrightarrow> score (scoreMarketCap h p) \<le> score (scoreMarketCap h' q))
   \<and> (nullish (volume_h24 p) 0 \<le> nullish (volume_h24 q) 0
      \<longrightarrow> score (scoreVolume h p) \<le> score (scoreVolume h' q))
   \<and> (countSocials p \<le> countSocials q \<longrightarrow> score (scoreSocial p) \<le> score (scoreSocial q))
   \<and> (getTokenAgeDays h p \<le> getTokenAgeDays h' q
      \<longrightarrow> score (scoreAge h p) \<le> score (scoreAge h' q))"
proof -
  have liq: "nullish (liquidity_usd p) 0 \<le> nullish (liquidity_usd q) 0
      \<longrightarrow> score (scoreLiquidity h p) \<le> score (scoreLiquidity h' q)"
    by (simp add: score_scoreLiquidity Let_def)
  have mc: "nullish (marketCap p) (nullish (fdv p) 0) \<le> nullish (marketCap q) (nullish (fdv q) 0)
      \<longrightarrow> score (scoreMarketCap h p) \<le> score (scoreMarketCap h' q)"
    by (simp add: score_scoreMarketCap Let_def)
  have vol: "nullish (volume_h24 p) 0 \<le> nullish (volume_h24 q) 0
      \<longrightarrow> score (scoreVolume h p) \<le> score (scoreVolume h' q)"
    by (simp add: score_scoreVolume Let_def)
  have soc: "countSocials p \<le> countSocials q \<longrightarrow> score (scoreSocial p) \<le> score (scoreSocial q)"
    by (simp add: score_scoreSocial Let_def)
  have age: "getTokenAgeDays h p \<le> getTokenAgeDays h' q
      \<longrightarrow> score (scoreAge h p) \<le> score (scoreAge h' q)"
    by (simp add: score_scoreAge Let_def)
  show ?thesis using liq mc vol soc age by blast
qed

theorem factor_score_monotone_witness:
  "nullish (liquidity_usd modest_pair) 0 \<le> nullish (liquidity_usd strong_pair) 0
   \<and> score (scoreLiquidity (example_host 1700604800000 ''2023-11-21T22:13:20.000Z'') modest_pair)
       \<le> score (scoreLiquidity (example_host 1700604800000 ''2023-11-21T22:13:20.000Z'') strong_pair)
   \<and> nullish (marketCap modest_pair) (nullish (fdv modest_pair) 0)
       \<le> nullish (marketCap strong_pair) (nullish (fdv strong_pair) 0)
   \<and> score (scoreMarketCap (example_host 1700604800000 ''2023-11-21T22:13:20.000Z'') modest_pair)
       \<le> score (scoreMarketCap (example_host 1700604800000 ''2023-11-21T22:13:20.000Z'') strong_pair)
   \<and> nullish (volume_h24 modest_pair) 0 \<le> nullish (volume_h24 strong_pair) 0
   \<and> score (scoreVolume (example_host 1700604800000 ''2023-11-21T22:13:20.000Z'') modest_pair)
       \<le> score (scoreVolume (example_host 1700604800000 ''2023-11-21T22:13:20.000Z'') strong_pair)
   \<and> countSocials modest_pair \<le> countSocials strong_pair
   \<and> score (scoreSocial modest_pair) \<le> score (scoreSocial strong_pair)
   \<and> getTokenAgeDays (example_host 1700604800000 ''2023-11-21T22:13:20.000Z'') modest_pair
       \<le> getTokenAgeDays (example_host 1702592000000 ''2023-12-14T22:13:20.000Z'') strong_pair
   \<and> score (scoreAge (example_host 1700604800000 ''2023-11-21T22:13:20.000Z'') modest_pair)
       \<le> score (scoreAge (example_host 1702592000000 ''2023-12-14T22:13:20.000Z'') strong_pair)"
proof -
  have m: "nullish (liquidity_usd modest_pair) 0 \<le> nullish (liquidity_usd strong_pair) 0"
    "nullish (marketCap modest_pair) (nullish (fdv modest_pair) 0)
       \<le> nullish (marketCap strong_pair) (nullish (fdv strong_pair) 0)"
    "nullish (volume_h24 modest_pair) 0 \<le> nullish (volume_h24 strong_pair) 0"
    "countSocials modest_pair \<le> countSocials strong_pair"
    by (simp_all add: modest_pair_def strong_pair_def countSocials_def)
  have a: "getTokenAgeDays (example_host 1700604800000 ''2023-11-21T22:13:20.000Z'') modest_pair
       \<le> getTokenAgeDays (example_host 1702592000000 ''2023-12-14T22:13:20.000Z'') strong_pair"
    by (simp add: age_30_days age_7_days)
  show ?thesis
    using m a
      factor_score_monotone
        [of modest_pair strong_pair "example_host 1700604800000 ''2023-11-21T22:13:20.000Z''"
            "example_host 1700604800000 ''2023-11-21T22:13:20.000Z''"]
      factor_score_monotone
        [of modest_pair strong_pair "example_host 1700604800000 ''2023-11-21T22:13:20.000Z''"
            "example_host 1702592000000 ''2023-12-14T22:13:20.000Z''"]
    by blast
qed

section \<open>Catalysts and the composite score\<close>

lemma foldl_plus:
  "foldl (\<lambda>sum x. sum + f x) a xs = a + sum_list (map f xs)" for a :: int
  by (induction xs arbitrary: a) simp_all

lemma scoreToken_catalysts:
  "arrays (snd (scoreToken h pair s)) (catalysts (fst (scoreToken h pair s)))
     = detectCatalysts h pair"
  by (simp add: scoreToken_def alloc_def Let_def)

lemma scoreToken_breakdown:
  "breakdown (fst (scoreToken h pair s)) =
     [scoreLiquidity h pair, scoreMarketCap h pair, scoreVolume h pair,
      scoreSocial pair, scoreAge h pair, scoreTeam pair]"
  by (simp add: scoreToken_def alloc_def Let_def)

lemma scoreToken_totalScore:
  "totalScore (fst (scoreToken h pair s)) =
     max 0 (min 100
       (score (scoreLiquidity h pair) + score (scoreMarketCap h pair)
        + score (scoreVolume h pair) + score (scoreSocial pair) + score (scoreAge h pair)
        + score (scoreTeam pair) + sum_list (map points (detectCatalysts h pair))))"
  by (simp add: scoreToken_def alloc_def Let_def foldl_plus)

lemma scoreToken_action:
  "action (fst (scoreToken h pair s)) = getAction (totalScore (fst (scoreToken h pair s)))"
  by (simp add: scoreToken_def alloc_def Let_def)

lemma getAction_tiers:
  "(getAction t = HOT \<longleftrightarrow> t \<ge> 85)
   \<and> (getAction t = QUALIFIED \<longleftrightarrow> 70 \<le> t \<and> t < 85)
   \<and> (getAction t = WATCH \<longleftrightarrow> 50 \<le> t \<and> t < 70)
   \<and> (getAction t = SKIP \<longleftrightarrow> t < 50)"
  by (simp add: getAction_def)

text \<open>
  C2. The total of \<open>scoreToken\<close> is the sum of the six factor scores and of the catalyst
  point deltas, clamped to 0..100; the action is read off the clamped total (HOT from 85,
  QUALIFIED from 70, WATCH from 50, else SKIP); the six weights sum to 100.
\<close>

theorem scoreToken_total_and_action:
  "totalScore (fst (scoreToken h pair s)) =
     max 0 (min 100
       (score (scoreLiquidity h pair) + score (scoreMarketCap h pair)
        + score (scoreVolume h pair) + score (scoreSocial pair) + score (scoreAge h pair)
        + score (scoreTeam pair) + sum_list (map points (detectCatalysts h pair))))
   \<and> breakdown (fst (scoreToken h pair s)) =
        [scoreLiquidity h pair, scoreMarketCap h pair, scoreVolume h pair,
         scoreSocial pair, scoreAge h pair, scoreTeam pair]
   \<and> arrays (snd (scoreToken h pair s)) (catalysts (fst (scoreToken h pair s)))
        = detectCatalysts h pair
   \<and> (action (fst (scoreToken h pair s)) = HOT \<longleftrightarrow> totalScore (fst (scoreToken h pair s)) \<ge> 85)
   \<and> (action (fst (scoreToken h pair s)) = QUALIFIED \<longleftrightarrow>
        70 \<le> totalScore (fst (scoreToken h pair s)) \<and> totalScore (fst (scoreToken h pair s)) < 85)
   \<and> (action (fst (scoreToken h pair s)) = WATCH \<longleftrightarrow>
        50 \<le> totalScore (fst (scoreToken h pair s)) \<and> totalScore (fst (scoreToken h pair s)) < 70)
   \<and> (action (fst (scoreToken h pair s)) = SKIP \<longleftrightarrow> totalScore (fst (scoreToken h pair s)) < 50)
   \<and> 0 \<le> totalScore (fst (scoreToken h pair s))
   \<and> totalScore (fst (scoreToken h pair s)) \<le> 100
   \<and> sum_list (map weight (breakdown (fst (scoreToken h pair s)))) = 100
   \<and> w_liquidity WEIGHTS + w_marketCap WEIGHTS + w_volume24h WEIGHTS + w_social WEIGHTS
        + w_age WEIGHTS + w_team WEIGHTS = 100"
proof -
  have range: "0 \<le> totalScore (fst (scoreToken h pair s))
      \<and> totalScore (fst (scoreToken h pair s)) \<le> 100"
    by (simp add: scoreToken_totalScore)
  have act: "(action (fst (scoreToken h pair s)) = HOT \<longleftrightarrow> totalScore (fst (scoreToken h pair s)) \<ge> 85)
   \<and> (action (fst (scoreToken h pair s)) = QUALIFIED \<longleftrightarrow>
        70 \<le> totalScore (fst (scoreToken h pair s)) \<and> totalScore (fst (scoreToken h pair s)) < 85)
   \<and> (action (fst (scoreToken h pair s)) = WATCH \<longleftrightarrow>
        50 \<le> totalScore (fst (scoreToken h pair s)) \<and> totalScore (fst (scoreToken h pair s)) < 70)
   \<and> (action (fst (scoreToken h pair s)) = SKIP \<longleftrightarrow> totalScore (fst (scoreToken h pair s)) < 50)"
    unfolding scoreToken_action by (rule getAction_tiers)
  have w1: "sum_list (map weight (breakdown (fst (scoreToken h pair s)))) = 100"
    by (simp add: scoreToken_breakdown weight_maxScore)
  have w2: "w_liquidity WEIGHTS + w_marketCap WEIGHTS + w_volume24h WEIGHTS + w_social WEIGHTS
        + w_age WEIGHTS + w_team WEIGHTS = 100"
    by (simp add: WEIGHTS_def)
  show ?thesis
    using scoreToken_totalScore [of h pair s] scoreToken_breakdown [of h pair s]
      scoreToken_catalysts [of h pair s] range act w1 w2
    by blast
qed

lemma strong_pair_catalysts:
  "map points (detectCatalysts (example_host 1702592000000 ''2023-12-14T22:13:20.000Z'') strong_pair)
     = [3, 5]"
  by (simp add: detectCatalysts_def ratio_above_def strong_pair_def countSocials_def Let_def)

theorem scoreToken_total_and_action_witness:
  "totalScore (fst (scoreToken (example_host 1702592000000 ''2023-12-14T22:13:20.000Z'')
      strong_pair empty_store)) = 100
   \<and> action (fst (scoreToken (example_host 1702592000000 ''2023-12-14T22:13:20.000Z'')
      strong_pair empty_store)) = HOT"
proof -
  have "score (scoreLiquidity (example_host 1702592000000 ''2023-12-14T22:13:20.000Z'') strong_pair) = 25"
    "score (scoreMarketCap (example_host 1702592000000 ''2023-12-14T22:13:20.000Z'') strong_pair) = 20"
    "score (scoreVolume (example_host 1702592000000 ''2023-12-14T22:13:20.000Z'') strong_pair) = 20"
    "score (scoreSocial strong_pair) = 15"
    "score (scoreTeam strong_pair) = 10"
    by (simp_all add: score_scoreLiquidity score_scoreMarketCap score_scoreVolume
        score_scoreSocial score_scoreTeam strong_pair_def countSocials_def)
  moreover have "score (scoreAge (example_host 1702592000000 ''2023-12-14T22:13:20.000Z'') strong_pair) = 5"
    by (simp add: score_scoreAge age_30_days)
  ultimately show ?thesis
    using scoreToken_total_and_action
      [of "example_host 1702592000000 ''2023-12-14T22:13:20.000Z''" strong_pair empty_store]
      strong_pair_catalysts
    by simp
qed

lemma detectCatalysts_names:
  "set (map name (detectCatalysts h pair)) =
     (if fst (ratio_above (nullish (volume_h6 pair) 0) (nullish (volume_h24 pair) 0) 0.5)
      then {''Volume Momentum''} else {})
     \<union> (if fst (ratio_above (nullish (txns_h24_buys pair) 0) (nullish (txns_h24_sells pair) 0) 2)
        then {''Buy Pressure''} else {})
     \<union> (if countSocials pair \<ge> 4 then {''Multi-Platform Presence''} else {})
     \<union> (if nullish (priceChange_h24 pair) 0 < - 30 then {''Price Dump''} else {})
     \<union> (if fst (ratio_above (nullish (txns_h24_sells pair) 0) (nullish (txns_h24_buys pair) 0) 3)
        then {''Sell Pressure''} else {})"
  by (simp add: detectCatalysts_def Let_def)

lemma ratio_above_fires:
  "fst (ratio_above a b c) \<longleftrightarrow> 0 < a \<and> 0 < b \<and> a / b > c"
  by (simp add: ratio_above_def)

lemma ratio_above_divisors:
  "list_all (\<lambda>d. 0 < d) (snd (ratio_above a b c))"
  by (simp add: ratio_above_def)

text \<open>
  C5. A ratio rule whose denominator is zero does not fire; a ratio rule fires exactly
  when both operands are strictly positive and the ratio is above its threshold; and
  every division \<open>detectCatalysts\<close> evaluates has a strictly positive divisor, so none
  divides by zero.
\<close>

theorem catalyst_ratio_guards:
  "(nullish (volume_h24 pair) 0 = 0
      \<longrightarrow> ''Volume Momentum'' \<notin> set (map name (detectCatalysts h pair)))
   \<and> (nullish (txns_h24_sells pair) 0 = 0
      \<longrightarrow> ''Buy Pressure'' \<notin> set (map name (detectCatalysts h pair)))
   \<and> (nullish (txns_h24_buys pair) 0 = 0
      \<longrightarrow> ''Sell Pressure'' \<notin> set (map name (detectCatalysts h pair)))
   \<and> (''Volume Momentum'' \<in> set (map name (detectCatalysts h pair)) \<longleftrightarrow>
        0 < nullish (volume_h6 pair) 0 \<and> 0 < nullish (volume_h24 pair) 0
        \<and> nullish (volume_h6 pair) 0 / nullish (volume_h24 pair) 0 > 0.5)
   \<and> (''Buy Pressure'' \<in> set (map name (detectCatalysts h pair)) \<longleftrightarrow>
        0 < nullish (txns_h24_buys pair) 0 \<and> 0 < nullish (txns_h24_sells pair) 0
        \<and> nullish (txns_h24_buys pair) 0 / nullish (txns_h24_sells pair) 0 > 2)
   \<and> (''Sell Pressure'' \<in> set (map name (detectCatalysts h pair)) \<longleftrightarrow>
        0 < nullish (txns_h24_sells pair) 0 \<and> 0 < nullish (txns_h24_buys pair) 0
        \<and> nullish (txns_h24_sells pair) 0 / nullish (txns_h24_buys pair) 0 > 3)
   \<and> list_all (\<lambda>d. 0 < d) (detectCatalysts_divisors pair)"
proof -
  have vm: "''Volume Momentum'' \<in> set (map name (detectCatalysts h pair)) \<longleftrightarrow>
        0 < nullish (volume_h6 pair) 0 \<and> 0 < nullish (volume_h24 pair) 0
        \<and> nullish (volume_h6 pair) 0 / nullish (volume_h24 pair) 0 > 0.5"
    unfolding detectCatalysts_names by (simp add: ratio_above_fires)
  have bp: "''Buy Pressure'' \<in> set (map name (detectCatalysts h pair)) \<longleftrightarrow>
        0 < nullish (txns_h24_buys pair) 0 \<and> 0 < nullish (txns_h24_sells pair) 0
        \<and> nullish (txns_h24_buys pair) 0 / nullish (txns_h24_sells pair) 0 > 2"
    unfolding detectCatalysts_names by (simp add: ratio_above_fires)
  have sp: "''Sell Pressure'' \<in> set (map name (detectCatalysts h pair)) \<longleftrightarrow>
        0 < nullish (txns_h24_sells pair) 0 \<and> 0 < nullish (txns_h24_buys pair) 0
        \<and> nullish (txns_h24_sells pair) 0 / nullish (txns_h24_buys pair) 0 > 3"
    unfolding detectCatalysts_names by (simp add: ratio_above_fires)
  have dv: "list_all (\<lambda>d. 0 < d) (detectCatalysts_divisors pair)"
    by (simp add: detectCatalysts_divisors_def Let_def ratio_above_divisors ratio_above_fires)
  have z1: "nullish (volume_h24 pair) 0 = 0
      \<longrightarrow> ''Volume Momentum'' \<notin> set (map name (detectCatalysts h pair))"
    using vm by simp
  have z2: "nullish (txns_h24_sells pair) 0 = 0
      \<longrightarrow> ''Buy Pressure'' \<notin> set (map name (detectCatalysts h pair))"
    using bp by simp
  have z3: "nullish (txns_h24_buys pair) 0 = 0
      \<longrightarrow> ''Sell Pressure'' \<notin> set (map name (detectCatalysts h pair))"
    using sp by simp
  show ?thesis
    using z1 z2 z3 vm bp sp dv by blast
qed

theorem catalyst_ratio_guards_witness:
  "nullish (txns_h24_sells modest_pair) 0 = 0
   \<and> 0 < nullish (txns_h24_buys modest_pair) 0
   \<and> ''Buy Pressure'' \<notin> set (map name
        (detectCatalysts (example_host 1700604800000 ''2023-11-21T22:13:20.000Z'') modest_pair))
   \<and> detectCatalysts_divisors modest_pair = [40000]
   \<and> ''Buy Pressure'' \<in> set (map name
        (detectCatalysts (example_host 1700604800000 ''2023-11-21T22:13:20.000Z'') strong_pair))
   \<and> detectCatalysts_divisors strong_pair = [1200000, 10, 10, 100]"
proof -
  have a: "nullish (txns_h24_sells modest_pair) 0 = 0 \<and> 0 < nullish (txns_h24_buys modest_pair) 0"
    by (simp add: modest_pair_def)
  have b: "detectCatalysts_divisors modest_pair = [40000]"
    by (simp add: detectCatalysts_divisors_def ratio_above_def modest_pair_def Let_def)
  have c: "detectCatalysts_divisors strong_pair = [1200000, 10, 10, 100]"
    by (simp add: detectCatalysts_divisors_def ratio_above_def strong_pair_def Let_def)
  have d: "0 < nullish (txns_h24_buys strong_pair) 0 \<and> 0 < nullish (txns_h24_sells strong_pair) 0
        \<and> nullish (txns_h24_buys strong_pair) 0 / nullish (txns_h24_sells strong_pair) 0 > 2"
    by (simp add: strong_pair_def)
  show ?thesis
    using a b c d
      catalyst_ratio_guards
        [of modest_pair "example_host 1700604800000 ''2023-11-21T22:13:20.000Z''"]
      catalyst_ratio_guards
        [of strong_pair "example_host 1700604800000 ''2023-11-21T22:13:20.000Z''"]
    by blast
qed

section \<open>The clock\<close>

lemma modest_pair_no_catalysts:
  "detectCatalysts h modest_pair = []"
  by (simp add: detectCatalysts_def ratio_above_def modest_pair_def countSocials_def Let_def)

lemma modest_pair_static_scores:
  "score (scoreLiquidity h modest_pair) = 25"
  "score (scoreMarketCap h modest_pair) = 12"
  "score (scoreVolume h modest_pair) = 4"
  "score (scoreSocial modest_pair) = 2"
  "score (scoreTeam modest_pair) = 2"
  by (simp_all add: score_scoreLiquidity score_scoreMarketCap score_scoreVolume
      score_scoreSocial score_scoreTeam modest_pair_def countSocials_def)

text \<open>
  C9, as the claim states it, fails: the same snapshot, scored by the same engine at two
  instants a day apart, gets two different totals and two different actions.
\<close>

theorem scoreToken_clock_counterexample:
  "totalScore (fst (scoreToken (example_host 1700604800000 ''2023-11-21T22:13:20.000Z'')
      modest_pair empty_store)) = 48
   \<and> totalScore (fst (scoreToken (example_host 1700691200000 ''2023-11-22T22:13:20.000Z'')
      modest_pair empty_store)) = 50
   \<and> action (fst (scoreToken (example_host 1700604800000 ''2023-11-21T22:13:20.000Z'')
      modest_pair empty_store)) = SKIP
   \<and> action (fst (scoreToken (example_host 1700691200000 ''2023-11-22T22:13:20.000Z'')
      modest_pair empty_store)) = WATCH"
proof -
  have a7: "score (scoreAge (example_host 1700604800000 ''2023-11-21T22:13:20.000Z'') modest_pair) = 3"
    by (simp add: score_scoreAge age_7_days)
  have a8: "score (scoreAge (example_host 1700691200000 ''2023-11-22T22:13:20.000Z'') modest_pair) = 5"
    by (simp add: score_scoreAge age_8_days)
  have t7: "totalScore (fst (scoreToken (example_host 1700604800000 ''2023-11-21T22:13:20.000Z'')
      modest_pair empty_store)) = 48"
    by (simp add: scoreToken_totalScore modest_pair_static_scores modest_pair_no_catalysts a7)
  have t8: "totalScore (fst (scoreToken (example_host 1700691200000 ''2023-11-22T22:13:20.000Z'')
      modest_pair empty_store)) = 50"
    by (simp add: scoreToken_totalScore modest_pair_static_scores modest_pair_no_catalysts a8)
  show ?thesis
    by (simp add: scoreToken_action t7 t8 getAction_def)
qed

text \<open>
  C9, amended. The score depends on the snapshot and on the time of the call: the age
  factor reads \<open>Date.now()\<close>. Two calls of the same engine on an identical snapshot agree
  in every field other than \<open>scoredAt\<close> (and hold equal catalyst lists) whenever the two
  clock readings give the pair the same age in whole days, which is always so when the
  snapshot has no creation time; \<open>scoredAt\<close> is the time stamp of the call.
\<close>

theorem scoreToken_same_age_same_score:
  "(getTokenAgeDays h pair = getTokenAgeDays (h\<lparr>date_now := now', iso_now := stamp'\<rparr>) pair
      \<longrightarrow> (fst (scoreToken h pair s))\<lparr>scoredAt := z, catalysts := r\<rparr>
            = (fst (scoreToken (h\<lparr>date_now := now', iso_now := stamp'\<rparr>) pair s'))
                \<lparr>scoredAt := z, catalysts := r\<rparr>
          \<and> arrays (snd (scoreToken h pair s)) (catalysts (fst (scoreToken h pair s)))
            = arrays (snd (scoreToken (h\<lparr>date_now := now', iso_now := stamp'\<rparr>) pair s'))
                (catalysts (fst (scoreToken (h\<lparr>date_now := now', iso_now := stamp'\<rparr>) pair s'))))
   \<and> (pairCreatedAt pair = None
      \<longrightarrow> getTokenAgeDays h pair = getTokenAgeDays (h\<lparr>date_now := now', iso_now := stamp'\<rparr>) pair)
   \<and> scoredAt (fst (scoreToken h pair s)) = iso_now h"
proof -
  let ?h' = "h\<lparr>date_now := now', iso_now := stamp'\<rparr>"
  have cat: "detectCatalysts ?h' pair = detectCatalysts h pair"
    by (simp add: detectCatalysts_def Let_def)
  have liq: "scoreLiquidity ?h' pair = scoreLiquidity h pair"
    by (simp add: scoreLiquidity_def Let_def)
  have mc: "scoreMarketCap ?h' pair = scoreMarketCap h pair"
    by (simp add: scoreMarketCap_def Let_def)
  have vol: "scoreVolume ?h' pair = scoreVolume h pair"
    by (simp add: scoreVolume_def Let_def)
  have age: "getTokenAgeDays h pair = getTokenAgeDays ?h' pair
      \<Longrightarrow> scoreAge ?h' pair = scoreAge h pair"
    by (simp add: scoreAge_def)
  have main: "getTokenAgeDays h pair = getTokenAgeDays ?h' pair
      \<longrightarrow> (fst (scoreToken h pair s))\<lparr>scoredAt := z, catalysts := r\<rparr>
            = (fst (scoreToken ?h' pair s'))\<lparr>scoredAt := z, catalysts := r\<rparr>"
    using age by (simp add: scoreToken_def alloc_def Let_def cat liq mc vol)
  have cats: "arrays (snd (scoreToken h pair s)) (catalysts (fst (scoreToken h pair s)))
            = arrays (snd (scoreToken ?h' pair s')) (catalysts (fst (scoreToken ?h' pair s')))"
    by (simp add: scoreToken_catalysts cat)
  have none: "pairCreatedAt pair = None
      \<longrightarrow> getTokenAgeDays h pair = getTokenAgeDays ?h' pair"
    by (simp add: getTokenAgeDays_def)
  have stamp: "scoredAt (fst (scoreToken h pair s)) = iso_now h"
    by (simp add: scoreToken_def alloc_def Let_def)
  show ?thesis
    using main cats none stamp by blast
qed

theorem scoreToken_same_age_same_score_witness:
  "getTokenAgeDays (example_host 1700604800000 ''2023-11-21T22:13:20.000Z'') modest_pair
     = getTokenAgeDays ((example_host 1700604800000 ''2023-11-21T22:13:20.000Z'')
          \<lparr>date_now := 1700691199999, iso_now := ''2023-11-22T22:13:19.999Z''\<rparr>) modest_pair
   \<and> totalScore (fst (scoreToken ((example_host 1700604800000 ''2023-11-21T22:13:20.000Z'')
          \<lparr>date_now := 1700691199999, iso_now := ''2023-11-22T22:13:19.999Z''\<rparr>)
        modest_pair empty_store))
     = totalScore (fst (scoreToken (example_host 1700604800000 ''2023-11-21T22:13:20.000Z'')
        modest_pair empty_store))"
proof -
  have same: "getTokenAgeDays (example_host 1700604800000 ''2023-11-21T22:13:20.000Z'') modest_pair
     = getTokenAgeDays ((example_host 1700604800000 ''2023-11-21T22:13:20.000Z'')
          \<lparr>date_now := 1700691199999, iso_now := ''2023-11-22T22:13:19.999Z''\<rparr>) modest_pair"
    by (simp add: getTokenAgeDays_def example_host_def modest_pair_def)
  have "totalScore ((fst (scoreToken (example_host 1700604800000 ''2023-11-21T22:13:20.000Z'')
            modest_pair empty_store))\<lparr>scoredAt := [], catalysts := 0\<rparr>)
        = totalScore ((fst (scoreToken ((example_host 1700604800000 ''2023-11-21T22:13:20.000Z'')
            \<lparr>date_now := 1700691199999, iso_now := ''2023-11-22T22:13:19.999Z''\<rparr>)
            modest_pair empty_store))\<lparr>scoredAt := [], catalysts := 0\<rparr>)"
    using same
      scoreToken_same_age_same_score
        [where h = "example_host 1700604800000 ''2023-11-21T22:13:20.000Z''"
           and pair = modest_pair and now' = 1700691199999
           and stamp' = "''2023-11-22T22:13:19.999Z''" and s = empty_store and s' = empty_store
           and z = "[]" and r = 0]
    by simp
  then show ?thesis using same by simp
qed

section \<open>Wallet forensics\<close>

lemma generateFlags_mixer:
  "fundedBy' \<in> KNOWN_MIXERS cfg \<Longrightarrow>
     generateFlags cfg h address fundedBy' nb tc txs =
       [\<lparr>flag = MIXER_REJECT, impact = - 100,
         reason_wf = ''Funded by known mixer: '' @ take 8 fundedBy' @ ''...''\<rparr>]"
  by (simp add: generateFlags_def)

lemma analyzeWallet_result:
  "\<exists>r. analyzeWallet cfg h address (Inr bal) (Inr txs) fundedBy' = Inr r
       \<and> flags r = generateFlags cfg h address fundedBy' (b_nativeBalance bal) (b_tokenCount bal) txs
       \<and> scoreAdjustment r = sum_list (map impact (flags r))
       \<and> riskLevel r =
           (if list_ex (\<lambda>f. flag f = MIXER_REJECT) (flags r) then CRITICAL
            else if list_ex (\<lambda>f. flag f = DUMP_ALERT \<and> impact f \<le> - 15) (flags r) then HIGH
            else if list_ex (\<lambda>f. impact f < 0) (flags r) then MEDIUM
            else LOW)"
  by (simp add: analyzeWallet_def Let_def foldl_plus)

lemma analyzeWallet_Inr:
  "analyzeWallet cfg h address br tr fundedBy' = Inr r \<Longrightarrow>
     \<exists>bal txs. br = Inr bal \<and> tr = Inr txs
       \<and> flags r = generateFlags cfg h address fundedBy' (b_nativeBalance bal) (b_tokenCount bal) txs"
  by (auto simp add: analyzeWallet_def Let_def split: sum.splits)

lemma applyWalletAdjustment_mixer:
  "list_ex (\<lambda>f. flag f = MIXER_REJECT) (flags wr) \<Longrightarrow>
     totalScore (fst (applyWalletAdjustment ts wr s)) = 0
     \<and> action (fst (applyWalletAdjustment ts wr s)) = SKIP
     \<and> recommendation (fst (applyWalletAdjustment ts wr s)) = auto_rejected"
  by (simp add: applyWalletAdjustment_def Let_def)

text \<open>
  C1. A wallet funded from the configured mixer set gets exactly one flag,
  \<open>MIXER_REJECT\<close> with impact -100; its result has \<open>scoreAdjustment = -100\<close> and
  \<open>riskLevel = CRITICAL\<close>; merged into any \<open>TokenScore\<close> it yields total 0, action SKIP and
  the fixed rejection text. The override holds for every wallet result that carries a
  \<open>MIXER_REJECT\<close> flag.
\<close>

theorem mixer_funding_auto_reject:
  "(fundedBy' \<in> KNOWN_MIXERS cfg \<longrightarrow>
      generateFlags cfg h address fundedBy' nb tc txs =
        [\<lparr>flag = MIXER_REJECT, impact = - 100,
          reason_wf = ''Funded by known mixer: '' @ take 8 fundedBy' @ ''...''\<rparr>]
      \<and> (\<exists>r. analyzeWallet cfg h address (Inr bal) (Inr txs) fundedBy' = Inr r
            \<and> flags r =
                [\<lparr>flag = MIXER_REJECT, impact = - 100,
                  reason_wf = ''Funded by known mixer: '' @ take 8 fundedBy' @ ''...''\<rparr>]
            \<and> scoreAdjustment r = - 100
            \<and> riskLevel r = CRITICAL
            \<and> (\<forall>ts s. totalScore (fst (applyWalletAdjustment ts r s)) = 0
                  \<and> action (fst (applyWalletAdjustment ts r s)) = SKIP
                  \<and> recommendation (fst (applyWalletAdjustment ts r s)) = auto_rejected)))
   \<and> (list_ex (\<lambda>f. flag f = MIXER_REJECT) (flags wr) \<longrightarrow>
        totalScore (fst (applyWalletAdjustment ts' wr s')) = 0
        \<and> action (fst (applyWalletAdjustment ts' wr s')) = SKIP
        \<and> recommendation (fst (applyWalletAdjustment ts' wr s')) = auto_rejected)"
proof -
  have override: "list_ex (\<lambda>f. flag f = MIXER_REJECT) (flags wr) \<longrightarrow>
        totalScore (fst (applyWalletAdjustment ts' wr s')) = 0
        \<and> action (fst (applyWalletAdjustment ts' wr s')) = SKIP
        \<and> recommendation (fst (applyWalletAdjustment ts' wr s')) = auto_rejected"
    using applyWalletAdjustment_mixer by blast
  have mixer: "generateFlags cfg h address fundedBy' nb tc txs =
        [\<lparr>flag = MIXER_REJECT, impact = - 100,
          reason_wf = ''Funded by known mixer: '' @ take 8 fundedBy' @ ''...''\<rparr>]
      \<and> (\<exists>r. analyzeWallet cfg h address (Inr bal) (Inr txs) fundedBy' = Inr r
            \<and> flags r =
                [\<lparr>flag = MIXER_REJECT, impact = - 100,
                  reason_wf = ''Funded by known mixer: '' @ take 8 fundedBy' @ ''...''\<rparr>]
            \<and> scoreAdjustment r = - 100
            \<and> riskLevel r = CRITICAL
            \<and> (\<forall>ts s. totalScore (fst (applyWalletAdjustment ts r s)) = 0
                  \<and> action (fst (applyWalletAdjustment ts r s)) = SKIP
                  \<and> recommendation (fst (applyWalletAdjustment ts r s)) = auto_rejected))"
    if m: "fundedBy' \<in> KNOWN_MIXERS cfg"
  proof -
    obtain r where r: "analyzeWallet cfg h address (Inr bal) (Inr txs) fundedBy' = Inr r"
      and fl: "flags r = generateFlags cfg h address fundedBy' (b_nativeBalance bal) (b_tokenCount bal) txs"
      and adj: "scoreAdjustment r = sum_list (map impact (flags r))"
      and risk: "riskLevel r =
           (if list_ex (\<lambda>f. flag f = MIXER_REJECT) (flags r) then CRITICAL
            else if list_ex (\<lambda>f. flag f = DUMP_ALERT \<and> impact f \<le> - 15) (flags r) then HIGH
            else if list_ex (\<lambda>f. impact f < 0) (flags r) then MEDIUM
            else LOW)"
      using analyzeWallet_result by blast
    have fl': "flags r =
        [\<lparr>flag = MIXER_REJECT, impact = - 100,
          reason_wf = ''Funded by known mixer: '' @ take 8 fundedBy' @ ''...''\<rparr>]"
      using fl generateFlags_mixer [OF m] by simp
    have ex: "list_ex (\<lambda>f. flag f = MIXER_REJECT) (flags r)"
      by (simp add: fl')
    have merged: "\<forall>ts s. totalScore (fst (applyWalletAdjustment ts r s)) = 0
                  \<and> action (fst (applyWalletAdjustment ts r s)) = SKIP
                  \<and> recommendation (fst (applyWalletAdjustment ts r s)) = auto_rejected"
      using applyWalletAdjustment_mixer [OF ex] by blast
    have a: "scoreAdjustment r = - 100" by (simp add: adj fl')
    have c: "riskLevel r = CRITICAL" by (simp add: risk fl')
    show ?thesis
      using generateFlags_mixer [OF m] r fl' a c merged by blast
  qed
  show ?thesis using mixer override by blast
qed

theorem mixer_funding_auto_reject_witness:
  "''MixerPool1111111111111111111111111'' \<in> KNOWN_MIXERS configured_sets
   \<and> generateFlags configured_sets (example_host 1702592000000 ''2023-12-14T22:13:20.000Z'')
        ''DeployerWallet1111111111111111111'' ''MixerPool1111111111111111111111111'' 5 2
        serial_creator_sample =
        [\<lparr>flag = MIXER_REJECT, impact = - 100,
          reason_wf = ''Funded by known mixer: MixerPoo...''\<rparr>]
   \<and> (\<exists>r. analyzeWallet configured_sets (example_host 1702592000000 ''2023-12-14T22:13:20.000Z'')
            ''DeployerWallet1111111111111111111''
            (Inr \<lparr>b_nativeBalance = 5, b_tokenCount = 2\<rparr>) (Inr serial_creator_sample)
            ''MixerPool1111111111111111111111111'' = Inr r
         \<and> scoreAdjustment r = - 100 \<and> riskLevel r = CRITICAL
         \<and> totalScore (fst (applyWalletAdjustment
              (fst (scoreToken (example_host 1702592000000 ''2023-12-14T22:13:20.000Z'')
                 strong_pair empty_store))
              r
              (snd (scoreToken (example_host 1702592000000 ''2023-12-14T22:13:20.000Z'')
                 strong_pair empty_store)))) = 0)"
proof -
  have m: "''MixerPool1111111111111111111111111'' \<in> KNOWN_MIXERS configured_sets"
    by (simp add: configured_sets_def)
  have k: "generateFlags configured_sets (example_host 1702592000000 ''2023-12-14T22:13:20.000Z'')
        ''DeployerWallet1111111111111111111'' ''MixerPool1111111111111111111111111'' 5 2
        serial_creator_sample =
        [\<lparr>flag = MIXER_REJECT, impact = - 100,
          reason_wf = ''Funded by known mixer: '' @ take 8 ''MixerPool1111111111111111111111111''
                      @ ''...''\<rparr>]
      \<and> (\<exists>r. analyzeWallet configured_sets (example_host 1702592000000 ''2023-12-14T22:13:20.000Z'')
            ''DeployerWallet1111111111111111111''
            (Inr \<lparr>b_nativeBalance = 5, b_tokenCount = 2\<rparr>) (Inr serial_creator_sample)
            ''MixerPool1111111111111111111111111'' = Inr r
            \<and> flags r =
                [\<lparr>flag = MIXER_REJECT, impact = - 100,
                  reason_wf = ''Funded by known mixer: ''
                              @ take 8 ''MixerPool1111111111111111111111111'' @ ''...''\<rparr>]
            \<and> scoreAdjustment r = - 100
            \<and> riskLevel r = CRITICAL
            \<and> (\<forall>ts s. totalScore (fst (applyWalletAdjustment ts r s)) = 0
                  \<and> action (fst (applyWalletAdjustment ts r s)) = SKIP
                  \<and> recommendation (fst (applyWalletAdjustment ts r s)) = auto_rejected))"
    using m
      mixer_funding_auto_reject
        [where cfg = configured_sets
           and fundedBy' = "''MixerPool1111111111111111111111111''"
           and h = "example_host 1702592000000 ''2023-12-14T22:13:20.000Z''"
           and address = "''DeployerWallet1111111111111111111''"
           and nb = 5 and tc = 2 and txs = serial_creator_sample
           and bal = "\<lparr>b_nativeBalance = 5, b_tokenCount = 2\<rparr>"]
    by blast
  then obtain r where r:
    "analyzeWallet configured_sets (example_host 1702592000000 ''2023-12-14T22:13:20.000Z'')
            ''DeployerWallet1111111111111111111''
            (Inr \<lparr>b_nativeBalance = 5, b_tokenCount = 2\<rparr>) (Inr serial_creator_sample)
            ''MixerPool1111111111111111111111111'' = Inr r"
    "scoreAdjustment r = - 100" "riskLevel r = CRITICAL"
    "\<forall>ts s. totalScore (fst (applyWalletAdjustment ts r s)) = 0"
    by blast
  have g: "generateFlags configured_sets (example_host 1702592000000 ''2023-12-14T22:13:20.000Z'')
        ''DeployerWallet1111111111111111111'' ''MixerPool1111111111111111111111111'' 5 2
        serial_creator_sample =
        [\<lparr>flag = MIXER_REJECT, impact = - 100,
          reason_wf = ''Funded by known mixer: MixerPoo...''\<rparr>]"
    using k by simp
  show ?thesis
    using m g r by blast
qed

lemma generateFlags_rules:
  "fundedBy' \<notin> KNOWN_MIXERS cfg \<Longrightarrow>
     generateFlags cfg h address fundedBy' nb tc txs =
       (let fired =
          (if fundedBy' \<in> KNOWN_INSTITUTIONAL cfg \<or> address \<in> KNOWN_INSTITUTIONAL cfg
           then [\<lparr>flag = INSTITUTIONAL, impact = 8,
                  reason_wf = ''Linked to known institutional/VC wallet''\<rparr>]
           else [])
          @ (if countTokenCreates txs > 5
             then [\<lparr>flag = SERIAL_CREATOR, impact = - 5,
                    reason_wf = ''Created '' @ show_nat (countTokenCreates txs) @ '' tokens ''
                                @ em_dash @ '' serial creator pattern''\<rparr>]
             else [])
          @ (if isDumping (analyzeDumpPattern h txs)
             then [\<lparr>flag = DUMP_ALERT,
                    impact = (if dumpPercent (analyzeDumpPattern h txs) > 70 then - 15 else - 10),
                    reason_wf = toFixed h (dumpPercent (analyzeDumpPattern h txs)) 0
                                @ ''% sell transactions in last 7 days''\<rparr>]
             else [])
          @ (if nb > 1 \<and> tc > 0 \<and> \<not> isDumping (analyzeDumpPattern h txs)
             then [\<lparr>flag = NET_POSITIVE, impact = 2,
                    reason_wf = toFixed h nb 2 @ '' SOL + '' @ show_nat tc @ '' tokens held''\<rparr>]
             else [])
        in fired @
           (if list_all (\<lambda>f. impact f \<ge> 0) fired
            then [\<lparr>flag = WALLET_VERIFIED, impact = 3,
                   reason_wf = ''No negative signals detected''\<rparr>]
            else []))"
  by (simp add: generateFlags_def Let_def)

lemma generateFlags_nonempty:
  "generateFlags cfg h address fundedBy' nb tc txs \<noteq> []"
proof (cases "fundedBy' \<in> KNOWN_MIXERS cfg")
  case True
  then show ?thesis by (simp add: generateFlags_mixer)
next
  case False
  then show ?thesis by (simp add: generateFlags_rules Let_def)
qed

lemma generateFlags_verified_iff:
  "list_ex (\<lambda>f. flag f = WALLET_VERIFIED) (generateFlags cfg h address fundedBy' nb tc txs)
     \<longleftrightarrow> list_all (\<lambda>f. impact f \<ge> 0) (generateFlags cfg h address fundedBy' nb tc txs)"
proof (cases "fundedBy' \<in> KNOWN_MIXERS cfg")
  case True
  then show ?thesis by (simp add: generateFlags_mixer)
next
  case False
  then show ?thesis by (simp add: generateFlags_rules Let_def)
qed

lemma generateFlags_last_verified:
  "list_all (\<lambda>f. impact f \<ge> 0) (generateFlags cfg h address fundedBy' nb tc txs) \<Longrightarrow>
     last (generateFlags cfg h address fundedBy' nb tc txs) =
       \<lparr>flag = WALLET_VERIFIED, impact = 3, reason_wf = ''No negative signals detected''\<rparr>"
proof (cases "fundedBy' \<in> KNOWN_MIXERS cfg")
  case True
  assume "list_all (\<lambda>f. impact f \<ge> 0) (generateFlags cfg h address fundedBy' nb tc txs)"
  with True show ?thesis by (simp add: generateFlags_mixer)
next
  case False
  assume "list_all (\<lambda>f. impact f \<ge> 0) (generateFlags cfg h address fundedBy' nb tc txs)"
  with False show ?thesis by (simp add: generateFlags_rules Let_def split: if_splits)
qed

text \<open>
  C10. The flag list is never empty, for any funding source, balances and transaction
  sample, and every forensics result carries it. When no rule fires the list is the
  \<open>WALLET_VERIFIED\<close> fallback (+3) alone; when \<open>INSTITUTIONAL\<close> fires alone the fallback
  follows it; in general \<open>WALLET_VERIFIED\<close> is present exactly when no flag has a negative
  impact, and then it is the last flag.
\<close>

theorem flags_never_empty:
  "generateFlags cfg h address fundedBy' nb tc txs \<noteq> []
   \<and> (\<exists>r. analyzeWallet cfg h address (Inr bal) (Inr txs) fundedBy' = Inr r
         \<and> flags r = generateFlags cfg h address fundedBy' (b_nativeBalance bal) (b_tokenCount bal) txs
         \<and> flags r \<noteq> [])
   \<and> (analyzeWallet cfg h address br tr fundedBy' = Inr res \<longrightarrow> flags res \<noteq> [])
   \<and> (fundedBy' \<notin> KNOWN_MIXERS cfg \<and> fundedBy' \<notin> KNOWN_INSTITUTIONAL cfg
        \<and> address \<notin> KNOWN_INSTITUTIONAL cfg \<and> countTokenCreates txs \<le> 5
        \<and> \<not> isDumping (analyzeDumpPattern h txs) \<and> \<not> (nb > 1 \<and> tc > 0)
      \<longrightarrow> generateFlags cfg h address fundedBy' nb tc txs =
            [\<lparr>flag = WALLET_VERIFIED, impact = 3, reason_wf = ''No negative signals detected''\<rparr>])
   \<and> (fundedBy' \<notin> KNOWN_MIXERS cfg
        \<and> (fundedBy' \<in> KNOWN_INSTITUTIONAL cfg \<or> address \<in> KNOWN_INSTITUTIONAL cfg)
        \<and> countTokenCreates txs \<le> 5
        \<and> \<not> isDumping (analyzeDumpPattern h txs) \<and> \<not> (nb > 1 \<and> tc > 0)
      \<longrightarrow> generateFlags cfg h address fundedBy' nb tc txs =
            [\<lparr>flag = INSTITUTIONAL, impact = 8,
              reason_wf = ''Linked to known institutional/VC wallet''\<rparr>,
             \<lparr>flag = WALLET_VERIFIED, impact = 3, reason_wf = ''No negative signals detected''\<rparr>])
   \<and> (list_ex (\<lambda>f. flag f = WALLET_VERIFIED) (generateFlags cfg h address fundedBy' nb tc txs)
        \<longleftrightarrow> list_all (\<lambda>f. impact f \<ge> 0) (generateFlags cfg h address fundedBy' nb tc txs))
   \<and> (list_all (\<lambda>f. impact f \<ge> 0) (generateFlags cfg h address fundedBy' nb tc txs)
      \<longrightarrow> last (generateFlags cfg h address fundedBy' nb tc txs) =
            \<lparr>flag = WALLET_VERIFIED, impact = 3, reason_wf = ''No negative signals detected''\<rparr>)"
proof -
  have ne: "generateFlags cfg h address fundedBy' nb tc txs \<noteq> []"
    by (rule generateFlags_nonempty)
  have res: "\<exists>r. analyzeWallet cfg h address (Inr bal) (Inr txs) fundedBy' = Inr r
         \<and> flags r = generateFlags cfg h address fundedBy' (b_nativeBalance bal) (b_tokenCount bal) txs
         \<and> flags r \<noteq> []"
    using analyzeWallet_result [of cfg h address bal txs fundedBy'] generateFlags_nonempty
    by metis
  have any: "analyzeWallet cfg h address br tr fundedBy' = Inr res \<longrightarrow> flags res \<noteq> []"
    using analyzeWallet_Inr generateFlags_nonempty by metis
  have none: "fundedBy' \<notin> KNOWN_MIXERS cfg \<and> fundedBy' \<notin> KNOWN_INSTITUTIONAL cfg
        \<and> address \<notin> KNOWN_INSTITUTIONAL cfg \<and> countTokenCreates txs \<le> 5
        \<and> \<not> isDumping (analyzeDumpPattern h txs) \<and> \<not> (nb > 1 \<and> tc > 0)
      \<longrightarrow> generateFlags cfg h address fundedBy' nb tc txs =
            [\<lparr>flag = WALLET_VERIFIED, impact = 3, reason_wf = ''No negative signals detected''\<rparr>]"
    by (auto simp add: generateFlags_rules Let_def)
  have inst: "fundedBy' \<notin> KNOWN_MIXERS cfg
        \<and> (fundedBy' \<in> KNOWN_INSTITUTIONAL cfg \<or> address \<in> KNOWN_INSTITUTIONAL cfg)
        \<and> countTokenCreates txs \<le> 5
        \<and> \<not> isDumping (analyzeDumpPattern h txs) \<and> \<not> (nb > 1 \<and> tc > 0)
      \<longrightarrow> generateFlags cfg h address fundedBy' nb tc txs =
            [\<lparr>flag = INSTITUTIONAL, impact = 8,
              reason_wf = ''Linked to known institutional/VC wallet''\<rparr>,
             \<lparr>flag = WALLET_VERIFIED, impact = 3, reason_wf = ''No negative signals detected''\<rparr>]"
    by (auto simp add: generateFlags_rules Let_def)
  show ?thesis
    using ne res any none inst
      generateFlags_verified_iff [of cfg h address fundedBy' nb tc txs]
      generateFlags_last_verified [of cfg h address fundedBy' nb tc txs]
    by blast
qed

lemma old_sample_not_dumping:
  "\<not> isDumping (analyzeDumpPattern (example_host 1702592000000 ''2023-12-14T22:13:20.000Z'')
        serial_creator_sample)"
  by (simp add: analyzeDumpPattern_def example_host_def serial_creator_sample_def Let_def)

lemma sample_creates:
  "countTokenCreates serial_creator_sample = 8"
  by (simp add: countTokenCreates_def serial_creator_sample_def toLowerCase_def lower_char_def)

theorem flags_never_empty_witness:
  "generateFlags shipped_sets (example_host 1702592000000 ''2023-12-14T22:13:20.000Z'')
      ''DeployerWallet1111111111111111111'' ''UNKNOWN'' 0 0 [] =
      [\<lparr>flag = WALLET_VERIFIED, impact = 3, reason_wf = ''No negative signals detected''\<rparr>]
   \<and> generateFlags configured_sets (example_host 1702592000000 ''2023-12-14T22:13:20.000Z'')
      ''DeployerWallet1111111111111111111'' ''VentureFund11111111111111111111111'' 0 0 [] =
      [\<lparr>flag = INSTITUTIONAL, impact = 8, reason_wf = ''Linked to known institutional/VC wallet''\<rparr>,
       \<lparr>flag = WALLET_VERIFIED, impact = 3, reason_wf = ''No negative signals detected''\<rparr>]"
proof -
  have nd: "\<not> isDumping (analyzeDumpPattern (example_host 1702592000000 ''2023-12-14T22:13:20.000Z'') [])"
    by (simp add: analyzeDumpPattern_def Let_def)
  have c0: "countTokenCreates [] \<le> 5"
    by (simp add: countTokenCreates_def)
  have a: "''UNKNOWN'' \<notin> KNOWN_MIXERS shipped_sets \<and> ''UNKNOWN'' \<notin> KNOWN_INSTITUTIONAL shipped_sets
      \<and> ''DeployerWallet1111111111111111111'' \<notin> KNOWN_INSTITUTIONAL shipped_sets"
    by (simp add: shipped_sets_def)
  have b: "''VentureFund11111111111111111111111'' \<notin> KNOWN_MIXERS configured_sets
      \<and> ''VentureFund11111111111111111111111'' \<in> KNOWN_INSTITUTIONAL configured_sets"
    by (simp add: configured_sets_def)
  have z: "\<not> ((0::real) > 1 \<and> (0::nat) > 0)" by simp
  show ?thesis
    using nd c0 a b z
      flags_never_empty
        [where cfg = shipped_sets and h = "example_host 1702592000000 ''2023-12-14T22:13:20.000Z''"
           and address = "''DeployerWallet1111111111111111111''" and fundedBy' = "''UNKNOWN''"
           and nb = 0 and tc = 0 and txs = "[]"]
      flags_never_empty
        [where cfg = configured_sets and h = "example_host 1702592000000 ''2023-12-14T22:13:20.000Z''"
           and address = "''DeployerWallet1111111111111111111''"
           and fundedBy' = "''VentureFund11111111111111111111111''"
           and nb = 0 and tc = 0 and txs = "[]"]
    by blast
qed

lemma serial_creator_flags:
  "fundedBy' \<notin> KNOWN_MIXERS cfg \<and> fundedBy' \<notin> KNOWN_INSTITUTIONAL cfg
     \<and> address \<notin> KNOWN_INSTITUTIONAL cfg
     \<and> countTokenCreates txs = 8 \<and> \<not> isDumping (analyzeDumpPattern h txs)
     \<and> b_nativeBalance bal = 5 \<and> b_tokenCount bal = 2
   \<longrightarrow> (\<exists>r. analyzeWallet cfg h address (Inr bal) (Inr txs) fundedBy' = Inr r
          \<and> flags r =
              [\<lparr>flag = SERIAL_CREATOR, impact = - 5,
                reason_wf = ''Created 8 tokens '' @ em_dash @ '' serial creator pattern''\<rparr>,
               \<lparr>flag = NET_POSITIVE, impact = 2,
                reason_wf = toFixed h 5 2 @ '' SOL + 2 tokens held''\<rparr>]
          \<and> scoreAdjustment r = - 3
          \<and> riskLevel r = MEDIUM
          \<and> \<not> list_ex (\<lambda>f. flag f = WALLET_VERIFIED) (flags r))"
proof
  assume a: "fundedBy' \<notin> KNOWN_MIXERS cfg \<and> fundedBy' \<notin> KNOWN_INSTITUTIONAL cfg
     \<and> address \<notin> KNOWN_INSTITUTIONAL cfg
     \<and> countTokenCreates txs = 8 \<and> \<not> isDumping (analyzeDumpPattern h txs)
     \<and> b_nativeBalance bal = 5 \<and> b_tokenCount bal = 2"
  obtain r where r: "analyzeWallet cfg h address (Inr bal) (Inr txs) fundedBy' = Inr r"
    and fl: "flags r = generateFlags cfg h address fundedBy' (b_nativeBalance bal) (b_tokenCount bal) txs"
    and adj: "scoreAdjustment r = sum_list (map impact (flags r))"
    and risk: "riskLevel r =
           (if list_ex (\<lambda>f. flag f = MIXER_REJECT) (flags r) then CRITICAL
            else if list_ex (\<lambda>f. flag f = DUMP_ALERT \<and> impact f \<le> - 15) (flags r) then HIGH
            else if list_ex (\<lambda>f. impact f < 0) (flags r) then MEDIUM
            else LOW)"
    using analyzeWallet_result by blast
  have eight: "show_nat 8 = ''8''"
    by (simp add: show_nat.simps digit_char_def)
  have two: "show_nat 2 = ''2''"
    by (simp add: show_nat.simps digit_char_def)
  have fl': "flags r =
              [\<lparr>flag = SERIAL_CREATOR, impact = - 5,
                reason_wf = ''Created 8 tokens '' @ em_dash @ '' serial creator pattern''\<rparr>,
               \<lparr>flag = NET_POSITIVE, impact = 2,
                reason_wf = toFixed h 5 2 @ '' SOL + 2 tokens held''\<rparr>]"
    using a by (simp add: fl generateFlags_rules Let_def eight two)
  have "scoreAdjustment r = - 3" by (simp add: adj fl')
  moreover have "riskLevel r = MEDIUM" by (simp add: risk fl')
  moreover have "\<not> list_ex (\<lambda>f. flag f = WALLET_VERIFIED) (flags r)" by (simp add: fl')
  ultimately show "\<exists>r. analyzeWallet cfg h address (Inr bal) (Inr txs) fundedBy' = Inr r
          \<and> flags r =
              [\<lparr>flag = SERIAL_CREATOR, impact = - 5,
                reason_wf = ''Created 8 tokens '' @ em_dash @ '' serial creator pattern''\<rparr>,
               \<lparr>flag = NET_POSITIVE, impact = 2,
                reason_wf = toFixed h 5 2 @ '' SOL + 2 tokens held''\<rparr>]
          \<and> scoreAdjustment r = - 3
          \<and> riskLevel r = MEDIUM
          \<and> \<not> list_ex (\<lambda>f. flag f = WALLET_VERIFIED) (flags r)"
    using r fl' by blast
qed

text \<open>
  C4. A wallet with eight token creations in its sample, no dump pattern, a balance of 5
  with 2 tokens held and a funding source that is neither a mixer nor institutional gets
  exactly the flags \<open>SERIAL_CREATOR\<close> (-5, its rationale naming the count 8) and
  \<open>NET_POSITIVE\<close> (+2), the adjustment -3 and the risk level MEDIUM, and no
  \<open>WALLET_VERIFIED\<close>. With the address sets as the source ships them this holds for every
  such wallet. With configured sets, the institutional rule also looks up the wallet's own
  address, and the statement is about the wallets that are not listed there.
\<close>

theorem serial_creator_scenario:
  "(countTokenCreates txs = 8 \<and> \<not> isDumping (analyzeDumpPattern h txs)
      \<and> b_nativeBalance bal = 5 \<and> b_tokenCount bal = 2
    \<longrightarrow> (\<exists>r. analyzeWallet shipped_sets h address (Inr bal) (Inr txs) fundedBy' = Inr r
          \<and> flags r =
              [\<lparr>flag = SERIAL_CREATOR, impact = - 5,
                reason_wf = ''Created 8 tokens '' @ em_dash @ '' serial creator pattern''\<rparr>,
               \<lparr>flag = NET_POSITIVE, impact = 2,
                reason_wf = toFixed h 5 2 @ '' SOL + 2 tokens held''\<rparr>]
          \<and> scoreAdjustment r = - 3
          \<and> riskLevel r = MEDIUM
          \<and> \<not> list_ex (\<lambda>f. flag f = WALLET_VERIFIED) (flags r)))
   \<and> (fundedBy' \<notin> KNOWN_MIXERS cfg \<and> fundedBy' \<notin> KNOWN_INSTITUTIONAL cfg
      \<and> address \<notin> KNOWN_INSTITUTIONAL cfg
      \<and> countTokenCreates txs = 8 \<and> \<not> isDumping (analyzeDumpPattern h txs)
      \<and> b_nativeBalance bal = 5 \<and> b_tokenCount bal = 2
    \<longrightarrow> (\<exists>r. analyzeWallet cfg h address (Inr bal) (Inr txs) fundedBy' = Inr r
          \<and> flags r =
              [\<lparr>flag = SERIAL_CREATOR, impact = - 5,
                reason_wf = ''Created 8 tokens '' @ em_dash @ '' serial creator pattern''\<rparr>,
               \<lparr>flag = NET_POSITIVE, impact = 2,
                reason_wf = toFixed h 5 2 @ '' SOL + 2 tokens held''\<rparr>]
          \<and> scoreAdjustment r = - 3
          \<and> riskLevel r = MEDIUM
          \<and> \<not> list_ex (\<lambda>f. flag f = WALLET_VERIFIED) (flags r)))"
proof -
  have shipped: "fundedBy' \<notin> KNOWN_MIXERS shipped_sets
      \<and> fundedBy' \<notin> KNOWN_INSTITUTIONAL shipped_sets
      \<and> address \<notin> KNOWN_INSTITUTIONAL shipped_sets"
    by (simp add: shipped_sets_def)
  show ?thesis
    using shipped
      serial_creator_flags [of fundedBy' shipped_sets address txs h bal]
      serial_creator_flags [of fundedBy' cfg address txs h bal]
    by blast
qed

theorem serial_creator_scenario_witness:
  "countTokenCreates serial_creator_sample = 8
   \<and> (\<exists>r. analyzeWallet shipped_sets (example_host 1702592000000 ''2023-12-14T22:13:20.000Z'')
            ''DeployerWallet1111111111111111111''
            (Inr \<lparr>b_nativeBalance = 5, b_tokenCount = 2\<rparr>) (Inr serial_creator_sample)
            ''UNKNOWN'' = Inr r
          \<and> map flag (flags r) = [SERIAL_CREATOR, NET_POSITIVE]
          \<and> map impact (flags r) = [- 5, 2]
          \<and> map reason_wf (flags r) =
              [''Created 8 tokens '' @ em_dash @ '' serial creator pattern'',
               ''5.00 SOL + 2 tokens held'']
          \<and> scoreAdjustment r = - 3
          \<and> riskLevel r = MEDIUM)"
proof -
  have a: "''UNKNOWN'' \<notin> KNOWN_MIXERS shipped_sets \<and> ''UNKNOWN'' \<notin> KNOWN_INSTITUTIONAL shipped_sets
      \<and> ''DeployerWallet1111111111111111111'' \<notin> KNOWN_INSTITUTIONAL shipped_sets"
    by (simp add: shipped_sets_def)
  have b: "b_nativeBalance \<lparr>b_nativeBalance = 5, b_tokenCount = 2\<rparr> = 5
      \<and> b_tokenCount \<lparr>b_nativeBalance = 5, b_tokenCount = 2\<rparr> = 2"
    by simp
  have f: "toFixed (example_host 1702592000000 ''2023-12-14T22:13:20.000Z'') 5 2 = ''5.00''"
    by (simp add: example_host_def fixed_notation_def show_nat.simps digit_char_def Let_def)
  obtain r where r:
    "analyzeWallet shipped_sets (example_host 1702592000000 ''2023-12-14T22:13:20.000Z'')
            ''DeployerWallet1111111111111111111''
            (Inr \<lparr>b_nativeBalance = 5, b_tokenCount = 2\<rparr>) (Inr serial_creator_sample)
            ''UNKNOWN'' = Inr r"
    "flags r =
              [\<lparr>flag = SERIAL_CREATOR, impact = - 5,
                reason_wf = ''Created 8 tokens '' @ em_dash @ '' serial creator pattern''\<rparr>,
               \<lparr>flag = NET_POSITIVE, impact = 2,
                reason_wf = toFixed (example_host 1702592000000 ''2023-12-14T22:13:20.000Z'') 5 2
                            @ '' SOL + 2 tokens held''\<rparr>]"
    "scoreAdjustment r = - 3" "riskLevel r = MEDIUM"
    using b sample_creates old_sample_not_dumping
      serial_creator_scenario
        [where h = "example_host 1702592000000 ''2023-12-14T22:13:20.000Z''"
           and address = "''DeployerWallet1111111111111111111''" and fundedBy' = "''UNKNOWN''"
           and txs = serial_creator_sample
           and bal = "\<lparr>b_nativeBalance = 5, b_tokenCount = 2\<rparr>"]
    by blast
  have m: "map flag (flags r) = [SERIAL_CREATOR, NET_POSITIVE]"
    "map impact (flags r) = [- 5, 2]"
    "map reason_wf (flags r) =
              [''Created 8 tokens '' @ em_dash @ '' serial creator pattern'',
               ''5.00 SOL + 2 tokens held'']"
    by (simp_all add: r f)
  show ?thesis
    by (intro conjI exI [of _ r]) (simp_all only: sample_creates r(1,3,4) m)
qed

section \<open>The merged score and its input\<close>

lemma push_fold:
  "arrays (foldl (\<lambda>st f. push r (mk f) st) s fs) r' =
     (if r' = r then arrays s r @ map mk fs else arrays s r')"
  by (induction fs arbitrary: s) (simp_all add: push_def)

lemma applyWalletAdjustment_same_array:
  "catalysts (fst (applyWalletAdjustment ts wr s)) = catalysts ts"
  by (simp add: applyWalletAdjustment_def Let_def)

lemma applyWalletAdjustment_pushes:
  "arrays (snd (applyWalletAdjustment ts wr s)) (catalysts ts) =
     arrays s (catalysts ts)
     @ map (\<lambda>f. \<lparr>name = ''Wallet: '' @ flag_name (flag f), points = impact f,
                  reason = reason_wf f\<rparr>) (flags wr)"
  by (simp add: applyWalletAdjustment_def Let_def push_fold)

lemma verified_wallet_result_is_result:
  "analyzeWallet shipped_sets (example_host 1702592000000 ''2023-12-14T22:13:20.000Z'')
      ''DeployerWallet1111111111111111111''
      (Inr \<lparr>b_nativeBalance = 0, b_tokenCount = 0\<rparr>) (Inr []) ''UNKNOWN''
     = Inr verified_wallet_result"
  by (simp add: analyzeWallet_def generateFlags_def analyzeDumpPattern_def countTokenCreates_def
      shipped_sets_def example_host_def verified_wallet_result_def Let_def)

text \<open>
  C6 at a concrete input. The score of \<open>strong_pair\<close> holds two catalysts. After the
  forensics result of a clean wallet is merged into it, the returned score and the input
  score hold the same array, and that array, the input's \<open>catalysts\<close>, has a third entry:
  the input was changed by the call.
\<close>

theorem applyWalletAdjustment_mutates_input:
  "map name
     (arrays (snd (scoreToken (example_host 1702592000000 ''2023-12-14T22:13:20.000Z'')
                     strong_pair empty_store))
        (catalysts (fst (scoreToken (example_host 1702592000000 ''2023-12-14T22:13:20.000Z'')
                           strong_pair empty_store))))
     = [''Buy Pressure'', ''Multi-Platform Presence'']
   \<and> map name
     (arrays
        (snd (applyWalletAdjustment
                (fst (scoreToken (example_host 1702592000000 ''2023-12-14T22:13:20.000Z'')
                        strong_pair empty_store))
                verified_wallet_result
                (snd (scoreToken (example_host 1702592000000 ''2023-12-14T22:13:20.000Z'')
                        strong_pair empty_store))))
        (catalysts (fst (scoreToken (example_host 1702592000000 ''2023-12-14T22:13:20.000Z'')
                           strong_pair empty_store))))
     = [''Buy Pressure'', ''Multi-Platform Presence'', ''Wallet: WALLET_VERIFIED'']
   \<and> catalysts
        (fst (applyWalletAdjustment
                (fst (scoreToken (example_host 1702592000000 ''2023-12-14T22:13:20.000Z'')
                        strong_pair empty_store))
                verified_wallet_result
                (snd (scoreToken (example_host 1702592000000 ''2023-12-14T22:13:20.000Z'')
                        strong_pair empty_store))))
     = catalysts (fst (scoreToken (example_host 1702592000000 ''2023-12-14T22:13:20.000Z'')
                         strong_pair empty_store))"
proof -
  have names: "map name
      (detectCatalysts (example_host 1702592000000 ''2023-12-14T22:13:20.000Z'') strong_pair)
     = [''Buy Pressure'', ''Multi-Platform Presence'']"
    by (simp add: detectCatalysts_def ratio_above_def strong_pair_def countSocials_def Let_def)
  show ?thesis
    by (simp add: applyWalletAdjustment_pushes applyWalletAdjustment_same_array
        scoreToken_catalysts names verified_wallet_result_def)
qed

end
